theory Spec2Isabelle
  imports Main
begin

section \<open>Go standard-library string helpers used by the proxy\<close>

text \<open>
  Go strings are byte sequences; they are modelled as \<open>string\<close> (a list of \<open>char\<close>, one
  per byte).  Go \<open>error\<close> values are built with \<open>fmt.Errorf\<close> throughout the repository and
  are only ever formatted with \<open>%v\<close>, so an error is modelled by its message.
\<close>

type_synonym err = string

text \<open>\<open>strings.Split(s, sep)\<close> for a one-byte separator: \<open>n\<close> separators give \<open>n + 1\<close> parts.\<close>

fun Split :: "string \<Rightarrow> char \<Rightarrow> string list" where
  "Split [] sep = [[]]"
| "Split (x # xs) sep =
     (if x = sep then [] # Split xs sep
      else (case Split xs sep of [] \<Rightarrow> [[x]] | p # ps \<Rightarrow> (x # p) # ps))"

text \<open>\<open>strings.SplitN(s, sep, 2)\<close> for a one-byte separator: cut at the first separator only.\<close>

definition SplitN2 :: "string \<Rightarrow> char \<Rightarrow> string list" where
  "SplitN2 s sep =
     (let rest = dropWhile (\<lambda>c. c \<noteq> sep) s
      in if rest = [] then [s] else [takeWhile (\<lambda>c. c \<noteq> sep) s, tl rest])"

text \<open>\<open>strings.Join(parts, sep)\<close> for a one-byte separator.\<close>

fun Join :: "string list \<Rightarrow> char \<Rightarrow> string" where
  "Join [] sep = []"
| "Join [p] sep = p"
| "Join (p # q # ps) sep = p @ sep # Join (q # ps) sep"

definition HasPrefix :: "string \<Rightarrow> string \<Rightarrow> bool" where
  "HasPrefix s pre = (take (length pre) s = pre)"

definition HasSuffix :: "string \<Rightarrow> string \<Rightarrow> bool" where
  "HasSuffix s suf = (length suf \<le> length s \<and> drop (length s - length suf) s = suf)"

definition TrimPrefix :: "string \<Rightarrow> string \<Rightarrow> string" where
  "TrimPrefix s pre = (if HasPrefix s pre then drop (length pre) s else s)"

text \<open>
  \<open>strings.ToLower\<close>, on the ASCII letters.  Bytes outside \<open>A..Z\<close> are left as they are; Go
  also maps non-ASCII upper-case code points, none of which lower-cases to a letter of
  \<open>bearer\<close>, the only word the result is ever compared with.
\<close>

definition toLower_char :: "char \<Rightarrow> char" where
  "toLower_char c =
     (case map_of (zip ''ABCDEFGHIJKLMNOPQRSTUVWXYZ'' ''abcdefghijklmnopqrstuvwxyz'') c of
        None \<Rightarrow> c
      | Some l \<Rightarrow> l)"

definition ToLower :: "string \<Rightarrow> string" where
  "ToLower s = map toLower_char s"


section \<open>Kueue objects read by the resolver\<close>

text \<open>\<open>metav1.OwnerReference\<close>, \<open>kueue.Admission\<close> and \<open>kueue.Workload\<close>, with the fields the
  proxy reads.  A Go pointer field that may be nil is an \<open>option\<close>.\<close>

record OwnerReference =
  or_Kind :: string
  or_Name :: string

record Admission =
  adm_ClusterQueue :: string

record Workload =
  wl_Name :: string
  wl_OwnerReferences :: "OwnerReference list"
  wl_Admission :: "Admission option"
  wl_ClusterName :: "string option"

text \<open>\<open>resolver.WorkerCluster\<close>: the value returned to the handlers and encoded as JSON.\<close>

record WorkerCluster =
  wc_Name :: string
  wc_State :: string
  wc_NominatedClusters :: "string list"
  wc_WorkloadName :: string


section \<open>The workload resolver\<close>

text \<open>
  The inner loop of \<open>findWorkloadByPipelineRun\<close>: does some owner reference have kind
  \<open>PipelineRun\<close> and the given name (so that the loop returns)?
\<close>

fun ownerRefLoop :: "OwnerReference list \<Rightarrow> string \<Rightarrow> bool" where
  "ownerRefLoop [] pipelineRunName = False"
| "ownerRefLoop (ownerRef # refs) pipelineRunName =
     (if or_Kind ownerRef = ''PipelineRun'' \<and> or_Name ownerRef = pipelineRunName then True
      else ownerRefLoop refs pipelineRunName)"

text \<open>The outer loop: the first workload whose inner loop returns, or nil.\<close>

fun workloadLoop :: "Workload list \<Rightarrow> string \<Rightarrow> Workload option" where
  "workloadLoop [] pipelineRunName = None"
| "workloadLoop (workload # items) pipelineRunName =
     (if ownerRefLoop (wl_OwnerReferences workload) pipelineRunName then Some workload
      else workloadLoop items pipelineRunName)"

text \<open>
  \<open>findWorkloadByPipelineRun\<close>.  The argument \<open>listWorkloads\<close> is the hub cluster's answer to
  \<open>Workloads(namespace).List\<close>: an error, or the items in the order returned.
\<close>

definition findWorkloadByPipelineRun ::
  "(string \<Rightarrow> err + Workload list) \<Rightarrow> string \<Rightarrow> string \<Rightarrow> err + Workload option" where
  "findWorkloadByPipelineRun listWorkloads namespace pipelineRunName =
     (case listWorkloads namespace of
        Inl e \<Rightarrow> Inl (''failed to list workloads: '' @ e)
      | Inr items \<Rightarrow> Inr (workloadLoop items pipelineRunName))"

definition ResolveWorkerCluster ::
  "(string \<Rightarrow> err + Workload list) \<Rightarrow> string \<Rightarrow> string \<Rightarrow> err + WorkerCluster" where
  "ResolveWorkerCluster listWorkloads namespace pipelineRunName =
     (case findWorkloadByPipelineRun listWorkloads namespace pipelineRunName of
        Inl e \<Rightarrow>
          Inl (''failed to find workload for PipelineRun '' @ namespace @ ''/'' @ pipelineRunName
               @ '': '' @ e)
      | Inr None \<Rightarrow>
          Inl (''no workload found for PipelineRun '' @ namespace @ ''/'' @ pipelineRunName)
      | Inr (Some workload) \<Rightarrow>
          (if wl_Admission workload \<noteq> None then
             Inr \<lparr>wc_Name = (case wl_ClusterName workload of None \<Rightarrow> [] | Some c \<Rightarrow> c),
                  wc_State = ''Admitted'',
                  wc_NominatedClusters = [],
                  wc_WorkloadName = wl_Name workload\<rparr>
           else
             Inr \<lparr>wc_Name = [],
                  wc_State = ''Dispatching'',
                  wc_NominatedClusters = [],
                  wc_WorkloadName = wl_Name workload\<rparr>))"

text \<open>The claim's reading of the scan: a workload is owned by the PipelineRun when one of
  its owner references has kind \<open>PipelineRun\<close> and the PipelineRun's name.\<close>

definition ownedByPipelineRun :: "string \<Rightarrow> Workload \<Rightarrow> bool" where
  "ownedByPipelineRun pipelineRunName workload =
     list_ex (\<lambda>ref. or_Kind ref = ''PipelineRun'' \<and> or_Name ref = pipelineRunName)
       (wl_OwnerReferences workload)"


section \<open>HTTP requests, replies and the calls a handler makes\<close>

text \<open>
  An inbound request, as far as the handlers read it: \<open>r.URL.Path\<close>, the parsed query
  (\<open>r.URL.Query()\<close>) and the headers under their canonical names.  \<open>Get\<close> on either
  returns the first value of the key, or the empty string when the key is absent.
\<close>

record request =
  req_Path :: string
  req_Query :: "(string \<times> string) list"
  req_Header :: "(string \<times> string) list"

definition query_Get :: "request \<Rightarrow> string \<Rightarrow> string" where
  "query_Get r key = (case map_of (req_Query r) key of None \<Rightarrow> [] | Some v \<Rightarrow> v)"

definition header_Get :: "request \<Rightarrow> string \<Rightarrow> string" where
  "header_Get r key = (case map_of (req_Header r) key of None \<Rightarrow> [] | Some v \<Rightarrow> v)"

text \<open>A JSON document, as a tree; an object keeps its fields in encoding order.\<close>

datatype json = JString string | JArray "json list" | JObject "(string \<times> json) list"

datatype body = Text string | Json json | Frames "string list"

record response =
  resp_Status :: nat
  resp_Header :: "string \<rightharpoonup> string"
  resp_Body :: body

text \<open>
  What the caller gets: a response, or nothing at all when the handler panics
  (\<open>net/http\<close> recovers the panic and drops the connection).
\<close>

datatype reply = Reply response | Aborted

definition reply_Status :: "reply \<Rightarrow> nat option" where
  "reply_Status rep = (case rep of Reply resp \<Rightarrow> Some (resp_Status resp) | Aborted \<Rightarrow> None)"

definition reply_Header :: "reply \<Rightarrow> string \<Rightarrow> string option" where
  "reply_Header rep key = (case rep of Reply resp \<Rightarrow> resp_Header resp key | Aborted \<Rightarrow> None)"

definition reply_Body :: "reply \<Rightarrow> body option" where
  "reply_Body rep = (case rep of Reply resp \<Rightarrow> Some (resp_Body resp) | Aborted \<Rightarrow> None)"

text \<open>\<open>http.Error(w, msg, code)\<close> on a writer whose headers are still unset.\<close>

definition http_Error :: "string \<Rightarrow> nat \<Rightarrow> reply" where
  "http_Error msg code =
     Reply \<lparr>resp_Status = code,
            resp_Header = [''Content-Type'' \<mapsto> ''text/plain; charset=utf-8'',
                           ''X-Content-Type-Options'' \<mapsto> ''nosniff''],
            resp_Body = Text (msg @ [CHR 0x0A])\<rparr>"

text \<open>\<open>rest.Config\<close>, for the caller's client on the hub and for the worker clusters.\<close>

record rest_Config =
  rc_Host :: string
  rc_BearerToken :: string
  rc_Insecure :: bool

record ResourceAttributes =
  ra_Namespace :: string
  ra_Verb :: string
  ra_Group :: string
  ra_Version :: string
  ra_Resource :: string
  ra_Name :: string

record SubjectAccessReviewStatus =
  sar_Allowed :: bool
  sar_Reason :: string

text \<open>
  \<open>corev1.PodLogOptions\<close> as the handlers fill it.  Times are nanoseconds since the epoch.
\<close>

record PodLogOptions =
  plo_Container :: string
  plo_Follow :: bool
  plo_TailLines :: "int option"
  plo_SinceTime :: "int option"

text \<open>
  An opened log stream: the chunks successive \<open>Read\<close> calls deliver, then the error that
  ends it (\<open>None\<close> for \<open>io.EOF\<close>).
\<close>

record logStream =
  ls_Chunks :: "string list"
  ls_Error :: "err option"

text \<open>
  An upgraded WebSocket connection: the handshake headers the upgrader wrote, and how many
  \<open>WriteMessage\<close> calls succeed before one fails (\<open>None\<close>: all of them).
\<close>

record wsConn =
  ws_HandshakeHeader :: "string \<rightharpoonup> string"
  ws_WritesBeforeFailure :: "nat option"

text \<open>
  Everything outside the process, as the answers it gives: the hub cluster's API, the
  worker clusters' APIs, the client libraries and the clock.
\<close>

record KubeConfigRef =
  kc_LocationType :: string
  kc_Location :: string

record MultiKueueCluster =
  mkc_Name :: string
  mkc_KubeConfig :: KubeConfigRef

record Secret =
  sec_Data :: "string \<rightharpoonup> string"

record world =
  w_listWorkloads :: "string \<Rightarrow> err + Workload list"
  w_newForConfig :: "rest_Config \<Rightarrow> err option"
  w_createSSAR :: "rest_Config \<Rightarrow> ResourceAttributes \<Rightarrow> err + SubjectAccessReviewStatus"
  w_listMultiKueueClusters :: "err + MultiKueueCluster list"
  w_getSecret :: "string \<Rightarrow> string \<Rightarrow> err + Secret"
  w_RESTConfigFromKubeConfig :: "string \<Rightarrow> err + rest_Config"
  w_newForConfigOrDie :: "rest_Config \<Rightarrow> bool"
  w_listTaskRuns :: "rest_Config \<Rightarrow> string \<Rightarrow> string \<Rightarrow> err + json"
  w_listPods :: "rest_Config \<Rightarrow> string \<Rightarrow> string \<Rightarrow> err + json"
  w_getPod :: "rest_Config \<Rightarrow> string \<Rightarrow> string \<Rightarrow> err + json"
  w_streamLogs :: "rest_Config \<Rightarrow> string \<Rightarrow> string \<Rightarrow> PodLogOptions \<Rightarrow> err + logStream"
  w_upgrade :: "request \<Rightarrow> response + wsConn"
  w_now :: int

text \<open>The requests a handler sends to a worker cluster.\<close>

datatype worker_request =
    ListTaskRuns rest_Config string string
  | ListPods rest_Config string string
  | GetPod rest_Config string string
  | GetLogs rest_Config string string PodLogOptions

text \<open>
  The calls of one request, in program order: an authorization check with its verdict
  (\<open>None\<close>: access granted), a resolver lookup (namespace, PipelineRun), a request to a
  worker cluster.
\<close>

datatype event =
    is_CheckAccess: CheckAccess ResourceAttributes "err option"
  | is_ResolverLookup: ResolverLookup string string
  | is_WorkerCall: WorkerCall worker_request

text \<open>Sequencing: the calls \<open>evs\<close> happen, then whatever \<open>res\<close> does.\<close>

definition after :: "event list \<Rightarrow> event list \<times> reply \<Rightarrow> event list \<times> reply" where
  "after evs res = (evs @ fst res, snd res)"


section \<open>Authorization\<close>

definition extractBearerToken :: "request \<Rightarrow> string" where
  "extractBearerToken r =
     (let authHeader = header_Get r ''Authorization''
      in if authHeader = [] then []
         else (let parts = SplitN2 authHeader CHR '' ''
               in if length parts \<noteq> 2 \<or> ToLower (parts ! 0) \<noteq> ''bearer'' then []
                  else parts ! 1))"

text \<open>
  The part the three \<open>Check...Access\<close> functions share word for word once the token is
  known: a client with the caller's token, one SelfSubjectAccessReview, the verdict.
  \<open>what\<close> is the noun of the denial message.
\<close>

definition reviewWithCallerToken ::
  "world \<Rightarrow> string \<Rightarrow> ResourceAttributes \<Rightarrow> string \<Rightarrow> err option" where
  "reviewWithCallerToken w callerToken attrs what =
     (let callerConfig = \<lparr>rc_Host = ''https://kubernetes.default.svc'',
                           rc_BearerToken = callerToken, rc_Insecure = True\<rparr>
      in case w_newForConfig w callerConfig of
           Some e \<Rightarrow> Some (''failed to create caller client: '' @ e)
         | None \<Rightarrow>
             (case w_createSSAR w callerConfig attrs of
                Inl e \<Rightarrow> Some (''failed to create SelfSubjectAccessReview: '' @ e)
              | Inr result \<Rightarrow>
                  if \<not> sar_Allowed result then
                    Some (''access denied to '' @ what @ '' '' @ ra_Namespace attrs @ ''/''
                          @ ra_Name attrs @ '': '' @ sar_Reason result)
                  else None))"

definition pipelineRunAttributes :: "string \<Rightarrow> string \<Rightarrow> ResourceAttributes" where
  "pipelineRunAttributes namespace pipelineRunName =
     \<lparr>ra_Namespace = namespace, ra_Verb = ''get'', ra_Group = ''tekton.dev'',
      ra_Version = ''v1'', ra_Resource = ''pipelineruns'', ra_Name = pipelineRunName\<rparr>"

definition podAttributes :: "string \<Rightarrow> string \<Rightarrow> ResourceAttributes" where
  "podAttributes namespace podName =
     \<lparr>ra_Namespace = namespace, ra_Verb = ''get'', ra_Group = [],
      ra_Version = ''v1'', ra_Resource = ''pods'', ra_Name = podName\<rparr>"

definition podLogsAttributes :: "string \<Rightarrow> string \<Rightarrow> ResourceAttributes" where
  "podLogsAttributes namespace podName =
     \<lparr>ra_Namespace = namespace, ra_Verb = ''get'', ra_Group = [],
      ra_Version = ''v1'', ra_Resource = ''pods/log'', ra_Name = podName\<rparr>"

definition CheckPipelineRunAccess :: "world \<Rightarrow> request \<Rightarrow> string \<Rightarrow> string \<Rightarrow> err option" where
  "CheckPipelineRunAccess w r namespace pipelineRunName =
     (let callerToken = extractBearerToken r
      in if callerToken = [] then Some ''no authorization token provided''
         else reviewWithCallerToken w callerToken
                (pipelineRunAttributes namespace pipelineRunName) ''PipelineRun'')"

definition CheckPodAccess :: "world \<Rightarrow> request \<Rightarrow> string \<Rightarrow> string \<Rightarrow> err option" where
  "CheckPodAccess w r namespace podName =
     (let callerToken = extractBearerToken r
      in if callerToken = [] then Some ''no authorization token provided''
         else reviewWithCallerToken w callerToken (podAttributes namespace podName) ''Pod'')"

definition CheckPodLogsAccess :: "world \<Rightarrow> request \<Rightarrow> string \<Rightarrow> string \<Rightarrow> err option" where
  "CheckPodLogsAccess w r namespace podName =
     (let callerToken = extractBearerToken r
      in if callerToken = [] then Some ''no authorization token provided''
         else reviewWithCallerToken w callerToken (podLogsAttributes namespace podName)
                ''Pod logs'')"


section \<open>The worker-config registry\<close>

text \<open>The cache \<open>configs\<close>: cluster name to connection parameters.\<close>

type_synonym configs = "string \<rightharpoonup> rest_Config"

definition GetConfig :: "configs \<Rightarrow> string \<Rightarrow> err + rest_Config" where
  "GetConfig cfgs clusterName =
     (case cfgs clusterName of
        None \<Rightarrow> Inl (''worker config not found for cluster: '' @ clusterName)
      | Some config \<Rightarrow> Inr config)"

text \<open>
  The body of the loop in \<open>LoadConfigs\<close> for one cluster, up to the store: the parsed
  configuration, or the message logged before \<open>continue\<close>.
\<close>

definition loadCluster :: "world \<Rightarrow> string \<Rightarrow> MultiKueueCluster \<Rightarrow> err + rest_Config" where
  "loadCluster w secretNamespace cluster =
     (let clusterName = mkc_Name cluster
      in if kc_LocationType (mkc_KubeConfig cluster) \<noteq> ''Secret'' then
           Inl (''MultiKueueCluster '' @ clusterName @ '' has unsupported location type: ''
                @ kc_LocationType (mkc_KubeConfig cluster))
         else
           (let secretName = kc_Location (mkc_KubeConfig cluster)
            in if secretName = [] then
                 Inl (''MultiKueueCluster '' @ clusterName @ '' has empty secret location'')
               else
                 (case w_getSecret w secretNamespace secretName of
                    Inl e \<Rightarrow>
                      Inl (''Failed to get secret '' @ secretName @ '' for cluster ''
                           @ clusterName @ '': '' @ e)
                  | Inr secret \<Rightarrow>
                      (case sec_Data secret ''kubeconfig'' of
                         None \<Rightarrow>
                           Inl (''Secret '' @ secretName @ '' does not contain kubeconfig data'')
                       | Some kubeconfigData \<Rightarrow>
                           (case w_RESTConfigFromKubeConfig w kubeconfigData of
                              Inl e \<Rightarrow>
                                Inl (''Failed to parse kubeconfig for cluster '' @ clusterName
                                     @ '': '' @ e)
                            | Inr config \<Rightarrow> Inr config)))))"

text \<open>The loop itself: a cluster that does not load is skipped, one that loads is stored
  under its name.\<close>

fun loadLoop :: "world \<Rightarrow> string \<Rightarrow> MultiKueueCluster list \<Rightarrow> configs \<Rightarrow> configs" where
  "loadLoop w secretNamespace [] cfgs = cfgs"
| "loadLoop w secretNamespace (cluster # items) cfgs =
     (case loadCluster w secretNamespace cluster of
        Inl warning \<Rightarrow> loadLoop w secretNamespace items cfgs
      | Inr config \<Rightarrow> loadLoop w secretNamespace items (cfgs(mkc_Name cluster \<mapsto> config)))"

text \<open>\<open>LoadConfigs\<close>: the returned error (\<open>None\<close> for nil) and the cache afterwards.\<close>

definition LoadConfigs :: "world \<Rightarrow> string \<Rightarrow> configs \<Rightarrow> err option \<times> configs" where
  "LoadConfigs w secretNamespace cfgs =
     (case w_listMultiKueueClusters w of
        Inl e \<Rightarrow> (Some (''failed to list MultiKueueClusters: '' @ e), cfgs)
      | Inr clusters \<Rightarrow> (None, loadLoop w secretNamespace clusters cfgs))"

definition ListClusters :: "configs \<Rightarrow> string set" where
  "ListClusters cfgs = dom cfgs"

text \<open>
  A watch event: its type and its object, which is a MultiKueueCluster or something the
  type assertion rejects.
\<close>

datatype watch_object = ClusterObject MultiKueueCluster | OtherObject

record watch_event =
  ev_Type :: string
  ev_Object :: watch_object

text \<open>One iteration of the loop over the watch channel; \<open>w\<close> is the world at that moment.\<close>

definition handleWatchEvent :: "world \<Rightarrow> string \<Rightarrow> watch_event \<Rightarrow> configs \<Rightarrow> configs" where
  "handleWatchEvent w secretNamespace event cfgs =
     (if ev_Type event = ''ADDED'' \<or> ev_Type event = ''MODIFIED'' then
        snd (LoadConfigs w secretNamespace cfgs)
      else if ev_Type event = ''DELETED'' then
        (case ev_Object event of
           ClusterObject cluster \<Rightarrow> cfgs(mkc_Name cluster := None)
         | OtherObject \<Rightarrow> cfgs)
      else cfgs)"

fun watchLoop :: "string \<Rightarrow> (world \<times> watch_event) list \<Rightarrow> configs \<Rightarrow> configs" where
  "watchLoop secretNamespace [] cfgs = cfgs"
| "watchLoop secretNamespace ((w, event) # events) cfgs =
     watchLoop secretNamespace events (handleWatchEvent w secretNamespace event cfgs)"

text \<open>
  \<open>watchMultiKueueClusters\<close> on a finite prefix of the watch channel: the initial load in
  world \<open>w0\<close>, then the watch (which may fail to start), then the events in arrival order.
\<close>

definition watchMultiKueueClusters ::
  "world \<Rightarrow> string \<Rightarrow> err + (world \<times> watch_event) list \<Rightarrow> configs \<Rightarrow> configs" where
  "watchMultiKueueClusters w0 secretNamespace watch cfgs =
     (let loaded = snd (LoadConfigs w0 secretNamespace cfgs)
      in case watch of
           Inl e \<Rightarrow> loaded
         | Inr events \<Rightarrow> watchLoop secretNamespace events loaded)"

section \<open>Integers read from the query\<close>

definition digit_value :: "char \<Rightarrow> int option" where
  "digit_value c = map_of (zip ''0123456789'' [0, 1, 2, 3, 4, 5, 6, 7, 8, 9]) c"

text \<open>The digits of a decimal numeral, most significant first, onto an accumulator;
  \<open>None\<close> at the first byte that is not a digit.\<close>

fun parse_digits :: "string \<Rightarrow> int \<Rightarrow> int option" where
  "parse_digits [] acc = Some acc"
| "parse_digits (c # cs) acc =
     (case digit_value c of None \<Rightarrow> None | Some d \<Rightarrow> parse_digits cs (10 * acc + d))"

text \<open>
  \<open>strconv.ParseInt(s, 10, 64)\<close>: an optional sign, then at least one decimal digit and
  nothing else, the value within the range of \<open>int64\<close>.  \<open>None\<close> stands for a non-nil
  error (syntax or range), which is all the caller looks at.
\<close>

definition ParseInt :: "string \<Rightarrow> int option" where
  "ParseInt s =
     (if s = [] then None
      else (let neg = (hd s = CHR ''-'');
                ds = (if hd s = CHR ''+'' \<or> hd s = CHR ''-'' then tl s else s)
            in if ds = [] then None
               else (case parse_digits ds 0 of
                       None \<Rightarrow> None
                     | Some un \<Rightarrow>
                         if \<not> neg \<and> un \<ge> 2 ^ 63 then None
                         else if neg \<and> un > 2 ^ 63 then None
                         else Some (if neg then - un else un))))"

text \<open>The value an \<open>int64\<close> holds after an arithmetic result \<open>x\<close> wraps around.\<close>

definition int64_wrap :: "int \<Rightarrow> int" where
  "int64_wrap x = (x + 2 ^ 63) mod 2 ^ 64 - 2 ^ 63"


section \<open>The proxy server\<close>

record Config =
  cfg_WorkersSecretNamespace :: string
  cfg_RequestTimeout :: int
  cfg_DefaultLogTailLines :: int

text \<open>
  The server while it serves one request: the clusters behind its clients, the registry's
  cache as the request reads it, and the configuration.
\<close>

record ProxyServer =
  ps_world :: world
  ps_configs :: configs
  ps_config :: Config

text \<open>\<open>json.Encode\<close> of a \<open>WorkerCluster\<close>: every field but \<open>state\<close> is \<open>omitempty\<close>.\<close>

definition encode_WorkerCluster :: "WorkerCluster \<Rightarrow> json" where
  "encode_WorkerCluster wc =
     JObject
       ((if wc_Name wc = [] then [] else [(''name'', JString (wc_Name wc))])
        @ [(''state'', JString (wc_State wc))]
        @ (if wc_NominatedClusters wc = [] then []
           else [(''nominatedClusters'', JArray (map JString (wc_NominatedClusters wc)))])
        @ (if wc_WorkloadName wc = [] then []
           else [(''workloadName'', JString (wc_WorkloadName wc))]))"

text \<open>The message of the 400 reply when the \<open>pipelineRun\<close> query parameter is missing
  (\<open>CHR 0x27\<close> is the apostrophe).\<close>

definition pipelineRunRequiredMessage :: string where
  "pipelineRunRequiredMessage =
     ''PipelineRun name must be provided as query parameter '' @ [CHR 0x27]
     @ ''pipelineRun'' @ [CHR 0x27]"

definition handleResolve ::
  "ProxyServer \<Rightarrow> request \<Rightarrow> string \<Rightarrow> string \<Rightarrow> event list \<times> reply" where
  "handleResolve p r namespace pipelineRunName =
     after [ResolverLookup namespace pipelineRunName]
       (case ResolveWorkerCluster (w_listWorkloads (ps_world p)) namespace pipelineRunName of
          Inl e \<Rightarrow> ([], http_Error (''Failed to resolve worker cluster: '' @ e) 404)
        | Inr workerCluster \<Rightarrow>
            ([], Reply
               \<lparr>resp_Status = (if wc_State workerCluster = ''Dispatching'' then 409 else 200),
                resp_Header =
                  (if wc_Name workerCluster \<noteq> [] then
                     [''Content-Type'' \<mapsto> ''application/json'',
                      ''X-Worker-Cluster'' \<mapsto> wc_Name workerCluster]
                   else [''Content-Type'' \<mapsto> ''application/json'']),
                resp_Body = Json (encode_WorkerCluster workerCluster)\<rparr>))"

definition handleTaskRuns ::
  "ProxyServer \<Rightarrow> request \<Rightarrow> string \<Rightarrow> string \<Rightarrow> event list \<times> reply" where
  "handleTaskRuns p r namespace pipelineRunName =
     after [ResolverLookup namespace pipelineRunName]
       (case ResolveWorkerCluster (w_listWorkloads (ps_world p)) namespace pipelineRunName of
          Inl e \<Rightarrow> ([], http_Error (''Failed to resolve worker cluster: '' @ e) 404)
        | Inr workerCluster \<Rightarrow>
            if wc_State workerCluster \<noteq> ''Admitted'' then
              ([], http_Error ''PipelineRun not admitted to worker cluster'' 409)
            else
              (case GetConfig (ps_configs p) (wc_Name workerCluster) of
                 Inl e \<Rightarrow> ([], http_Error (''Worker config not found: '' @ e) 424)
               | Inr workerConfig \<Rightarrow>
                   if \<not> w_newForConfigOrDie (ps_world p) workerConfig then ([], Aborted)
                   else
                     (let labelSelector = ''tekton.dev/pipelineRun='' @ pipelineRunName
                      in after [WorkerCall (ListTaskRuns workerConfig namespace labelSelector)]
                           (case w_listTaskRuns (ps_world p) workerConfig namespace
                                   labelSelector of
                              Inl e \<Rightarrow> ([], http_Error (''Failed to list TaskRuns: '' @ e) 500)
                            | Inr taskRuns \<Rightarrow>
                                ([], Reply
                                   \<lparr>resp_Status = 200,
                                    resp_Header =
                                      [''Content-Type'' \<mapsto> ''application/json'',
                                       ''X-Worker-Cluster'' \<mapsto> wc_Name workerCluster],
                                    resp_Body = Json taskRuns\<rparr>)))))"

definition handlePipelineRunPods ::
  "ProxyServer \<Rightarrow> request \<Rightarrow> string \<Rightarrow> string \<Rightarrow> event list \<times> reply" where
  "handlePipelineRunPods p r namespace pipelineRunName =
     after [ResolverLookup namespace pipelineRunName]
       (case ResolveWorkerCluster (w_listWorkloads (ps_world p)) namespace pipelineRunName of
          Inl e \<Rightarrow> ([], http_Error (''Failed to resolve worker cluster: '' @ e) 404)
        | Inr workerCluster \<Rightarrow>
            if wc_State workerCluster \<noteq> ''Admitted'' then
              ([], http_Error ''PipelineRun not admitted to worker cluster'' 409)
            else
              (case GetConfig (ps_configs p) (wc_Name workerCluster) of
                 Inl e \<Rightarrow> ([], http_Error (''Worker config not found: '' @ e) 424)
               | Inr workerConfig \<Rightarrow>
                   if \<not> w_newForConfigOrDie (ps_world p) workerConfig then ([], Aborted)
                   else
                     (let labelSelector = ''tekton.dev/pipelineRun='' @ pipelineRunName
                      in after [WorkerCall (ListPods workerConfig namespace labelSelector)]
                           (case w_listPods (ps_world p) workerConfig namespace labelSelector of
                              Inl e \<Rightarrow> ([], http_Error (''Failed to list Pods: '' @ e) 500)
                            | Inr pods \<Rightarrow>
                                ([], Reply
                                   \<lparr>resp_Status = 200,
                                    resp_Header =
                                      [''Content-Type'' \<mapsto> ''application/json'',
                                       ''X-Worker-Cluster'' \<mapsto> wc_Name workerCluster],
                                    resp_Body = Json pods\<rparr>)))))"

definition handlePodStatus ::
  "ProxyServer \<Rightarrow> request \<Rightarrow> string \<Rightarrow> string \<Rightarrow> event list \<times> reply" where
  "handlePodStatus p r namespace podName =
     (let pipelineRunName = query_Get r ''pipelineRun''
      in if pipelineRunName = [] then
           ([], http_Error pipelineRunRequiredMessage 400)
         else
           after [ResolverLookup namespace pipelineRunName]
             (case ResolveWorkerCluster (w_listWorkloads (ps_world p)) namespace
                     pipelineRunName of
                Inl e \<Rightarrow> ([], http_Error (''Failed to resolve worker cluster: '' @ e) 500)
              | Inr workerCluster \<Rightarrow>
                  if wc_State workerCluster \<noteq> ''Admitted'' then
                    ([], http_Error ''PipelineRun not admitted to worker cluster'' 409)
                  else
                    (case GetConfig (ps_configs p) (wc_Name workerCluster) of
                       Inl e \<Rightarrow> ([], http_Error (''Worker config not found: '' @ e) 424)
                     | Inr workerConfig \<Rightarrow>
                         if \<not> w_newForConfigOrDie (ps_world p) workerConfig then ([], Aborted)
                         else
                           after [WorkerCall (GetPod workerConfig namespace podName)]
                             (case w_getPod (ps_world p) workerConfig namespace podName of
                                Inl e \<Rightarrow> ([], http_Error (''Failed to get pod: '' @ e) 500)
                              | Inr pod \<Rightarrow>
                                  ([], Reply
                                     \<lparr>resp_Status = 200,
                                      resp_Header =
                                        [''Content-Type'' \<mapsto> ''application/json'',
                                         ''X-Worker-Cluster'' \<mapsto> wc_Name workerCluster],
                                      resp_Body = Json pod\<rparr>)))))"

text \<open>The two query parameters of a bounded fetch, as \<open>handleLogsFetch\<close> reads them.\<close>

definition fetch_sinceSeconds :: "request \<Rightarrow> int" where
  "fetch_sinceSeconds r =
     (let sinceStr = query_Get r ''sinceSeconds''
      in if sinceStr \<noteq> [] then (case ParseInt sinceStr of Some since \<Rightarrow> since | None \<Rightarrow> 0)
         else 0)"

definition fetch_tailLines :: "ProxyServer \<Rightarrow> request \<Rightarrow> int" where
  "fetch_tailLines p r =
     (let tailStr = query_Get r ''tailLines''
      in if tailStr \<noteq> [] then
           (case ParseInt tailStr of
              Some tail \<Rightarrow> tail
            | None \<Rightarrow> cfg_DefaultLogTailLines (ps_config p))
         else cfg_DefaultLogTailLines (ps_config p))"

text \<open>
  The log options of a bounded fetch.  The since-time is
  \<open>Now().Add(-time.Duration(sinceSeconds) * time.Second)\<close>, the product taken in \<open>int64\<close>.
\<close>

definition fetch_logOptions :: "ProxyServer \<Rightarrow> request \<Rightarrow> string \<Rightarrow> PodLogOptions" where
  "fetch_logOptions p r containerName =
     \<lparr>plo_Container = containerName,
      plo_Follow = False,
      plo_TailLines = Some (fetch_tailLines p r),
      plo_SinceTime =
        (if fetch_sinceSeconds r > 0 then
           Some (w_now (ps_world p)
                 + int64_wrap (int64_wrap (- fetch_sinceSeconds r) * 1000000000))
         else None)\<rparr>"

definition handleLogsFetch ::
  "ProxyServer \<Rightarrow> request \<Rightarrow> string \<Rightarrow> string \<Rightarrow> string \<Rightarrow> event list \<times> reply" where
  "handleLogsFetch p r namespace podName containerName =
     (let pipelineRunName = query_Get r ''pipelineRun''
      in if pipelineRunName = [] then
           ([], http_Error pipelineRunRequiredMessage 400)
         else
           after [ResolverLookup namespace pipelineRunName]
             (case ResolveWorkerCluster (w_listWorkloads (ps_world p)) namespace
                     pipelineRunName of
                Inl e \<Rightarrow> ([], http_Error (''Failed to resolve worker cluster: '' @ e) 500)
              | Inr workerCluster \<Rightarrow>
                  if wc_State workerCluster \<noteq> ''Admitted'' then
                    ([], http_Error ''PipelineRun not admitted to worker cluster'' 409)
                  else
                    (case GetConfig (ps_configs p) (wc_Name workerCluster) of
                       Inl e \<Rightarrow> ([], http_Error (''Worker config not found: '' @ e) 424)
                     | Inr workerConfig \<Rightarrow>
                         if \<not> w_newForConfigOrDie (ps_world p) workerConfig then ([], Aborted)
                         else
                           (let logOptions = fetch_logOptions p r containerName
                            in after [WorkerCall
                                        (GetLogs workerConfig namespace podName logOptions)]
                                 (case w_streamLogs (ps_world p) workerConfig namespace podName
                                         logOptions of
                                    Inl e \<Rightarrow>
                                      ([], http_Error (''Failed to get logs: '' @ e) 500)
                                  | Inr logs \<Rightarrow>
                                      ([], Reply
                                         \<lparr>resp_Status = 200,
                                          resp_Header =
                                            [''Content-Type'' \<mapsto> ''text/plain'',
                                             ''X-Worker-Cluster'' \<mapsto> wc_Name workerCluster],
                                          resp_Body = Text (concat (ls_Chunks logs))\<rparr>))))))"

text \<open>
  The relay loop of \<open>handleLogsStream\<close>: one frame per chunk read, until the stream ends
  or a write fails.  \<open>writes\<close> is the number of writes that still succeed.
\<close>

fun relayLoop :: "string list \<Rightarrow> nat option \<Rightarrow> string list" where
  "relayLoop [] writes = []"
| "relayLoop (chunk # chunks) writes =
     (case writes of
        None \<Rightarrow> chunk # relayLoop chunks None
      | Some 0 \<Rightarrow> []
      | Some (Suc k) \<Rightarrow> chunk # relayLoop chunks (Some k))"

text \<open>
  \<open>handleLogsStream\<close>.  The upgrader is called with a nil response header, so the
  101 response carries the handshake headers only; when the upgrade fails the upgrader
  has written its own error response.
\<close>

definition handleLogsStream ::
  "ProxyServer \<Rightarrow> request \<Rightarrow> string \<Rightarrow> string \<Rightarrow> string \<Rightarrow> event list \<times> reply" where
  "handleLogsStream p r namespace podName containerName =
     (let pipelineRunName = query_Get r ''pipelineRun''
      in if pipelineRunName = [] then
           ([], http_Error pipelineRunRequiredMessage 400)
         else
           after [ResolverLookup namespace pipelineRunName]
             (case ResolveWorkerCluster (w_listWorkloads (ps_world p)) namespace
                     pipelineRunName of
                Inl e \<Rightarrow> ([], http_Error (''Failed to resolve worker cluster: '' @ e) 500)
              | Inr workerCluster \<Rightarrow>
                  if wc_State workerCluster \<noteq> ''Admitted'' then
                    ([], http_Error ''PipelineRun not admitted to worker cluster'' 409)
                  else
                    (case GetConfig (ps_configs p) (wc_Name workerCluster) of
                       Inl e \<Rightarrow> ([], http_Error (''Worker config not found: '' @ e) 424)
                     | Inr workerConfig \<Rightarrow>
                         if \<not> w_newForConfigOrDie (ps_world p) workerConfig then ([], Aborted)
                         else
                           (let logOptions = \<lparr>plo_Container = containerName, plo_Follow = True,
                                               plo_TailLines = None, plo_SinceTime = None\<rparr>
                            in after [WorkerCall
                                        (GetLogs workerConfig namespace podName logOptions)]
                                 (case w_streamLogs (ps_world p) workerConfig namespace podName
                                         logOptions of
                                    Inl e \<Rightarrow>
                                      ([], http_Error (''Failed to get logs stream: '' @ e) 500)
                                  | Inr logs \<Rightarrow>
                                      (case w_upgrade (ps_world p) r of
                                         Inl errorResponse \<Rightarrow> ([], Reply errorResponse)
                                       | Inr conn \<Rightarrow>
                                           ([], Reply
                                              \<lparr>resp_Status = 101,
                                               resp_Header = ws_HandshakeHeader conn,
                                               resp_Body =
                                                 Frames (relayLoop (ls_Chunks logs)
                                                   (ws_WritesBeforeFailure conn))\<rparr>)))))))"


section \<open>Routing\<close>

definition handlePipelineRunRequest ::
  "ProxyServer \<Rightarrow> request \<Rightarrow> string \<Rightarrow> string \<Rightarrow> event list \<times> reply" where
  "handlePipelineRunRequest p r namespace resourcePath =
     (let pathParts = Split resourcePath CHR ''/''
      in if length pathParts < 2 then ([], http_Error ''Invalid PipelineRun path'' 400)
         else
           (let pipelineRunName = pathParts ! 1;
                subPath = Join (drop 2 pathParts) CHR ''/'';
                verdict = CheckPipelineRunAccess (ps_world p) r namespace pipelineRunName
            in after [CheckAccess (pipelineRunAttributes namespace pipelineRunName) verdict]
                 (case verdict of
                    Some e \<Rightarrow> ([], http_Error (''Access denied: '' @ e) 403)
                  | None \<Rightarrow>
                      if subPath = ''resolve'' then handleResolve p r namespace pipelineRunName
                      else if subPath = ''taskruns'' then
                        handleTaskRuns p r namespace pipelineRunName
                      else if subPath = ''pods'' then
                        handlePipelineRunPods p r namespace pipelineRunName
                      else ([], http_Error ''Unknown PipelineRun sub-resource'' 404))))"

definition handlePodRequest ::
  "ProxyServer \<Rightarrow> request \<Rightarrow> string \<Rightarrow> string \<Rightarrow> event list \<times> reply" where
  "handlePodRequest p r namespace resourcePath =
     (let pathParts = Split resourcePath CHR ''/''
      in if length pathParts < 2 then ([], http_Error ''Invalid Pod path'' 400)
         else
           (let podName = pathParts ! 1;
                subPath = Join (drop 2 pathParts) CHR ''/'';
                verdict = CheckPodAccess (ps_world p) r namespace podName
            in after [CheckAccess (podAttributes namespace podName) verdict]
                 (case verdict of
                    Some e \<Rightarrow> ([], http_Error (''Access denied: '' @ e) 403)
                  | None \<Rightarrow>
                      if subPath = ''status'' then handlePodStatus p r namespace podName
                      else ([], http_Error ''Unknown Pod sub-resource'' 404))))"

definition handleLogsRequest ::
  "ProxyServer \<Rightarrow> request \<Rightarrow> string \<Rightarrow> string \<Rightarrow> event list \<times> reply" where
  "handleLogsRequest p r namespace resourcePath =
     (let podName = query_Get r ''pod'';
          containerName = query_Get r ''container''
      in if podName = [] then ([], http_Error ''Pod name is required'' 400)
         else
           (let verdict = CheckPodLogsAccess (ps_world p) r namespace podName
            in after [CheckAccess (podLogsAttributes namespace podName) verdict]
                 (case verdict of
                    Some e \<Rightarrow> ([], http_Error (''Access denied: '' @ e) 403)
                  | None \<Rightarrow>
                      if HasSuffix resourcePath ''/stream'' then
                        handleLogsStream p r namespace podName containerName
                      else handleLogsFetch p r namespace podName containerName)))"

definition handleNamespaceRequest :: "ProxyServer \<Rightarrow> request \<Rightarrow> event list \<times> reply" where
  "handleNamespaceRequest p r =
     (let pathParts = Split (TrimPrefix (req_Path r) ''/api/v1/namespaces/'') CHR ''/''
      in if length pathParts < 2 then ([], http_Error ''Invalid path'' 400)
         else
           (let namespace = pathParts ! 0;
                resourcePath = Join (drop 1 pathParts) CHR ''/''
            in if HasPrefix resourcePath ''pipelineruns/'' then
                 handlePipelineRunRequest p r namespace resourcePath
               else if HasPrefix resourcePath ''pods/'' then
                 handlePodRequest p r namespace resourcePath
               else if HasPrefix resourcePath ''logs'' then
                 handleLogsRequest p r namespace resourcePath
               else ([], http_Error ''Unknown resource'' 404)))"

section \<open>The documented endpoints, as requests\<close>

text \<open>
  The README's endpoint table, read as predicates on a request.  \<open>api_path\<close> is the path
  of a resource under a namespace.
\<close>

definition api_path :: "string \<Rightarrow> string \<Rightarrow> string" where
  "api_path namespace resourcePath = ''/api/v1/namespaces/'' @ namespace @ ''/'' @ resourcePath"

text \<open>The router's own view of a path: the parts after the API prefix, and the resource
  path it routes on.\<close>

definition namespacePathParts :: "request \<Rightarrow> string list" where
  "namespacePathParts r = Split (TrimPrefix (req_Path r) ''/api/v1/namespaces/'') CHR ''/''"

definition resourcePathOf :: "request \<Rightarrow> string" where
  "resourcePathOf r = Join (drop 1 (namespacePathParts r)) CHR ''/''"

text \<open>
  \<open>GET .../pipelineruns/{name}/resolve\<close> by a caller the hub grants access to the
  PipelineRun.
\<close>

definition authorized_resolve_request ::
  "ProxyServer \<Rightarrow> request \<Rightarrow> string \<Rightarrow> string \<Rightarrow> bool" where
  "authorized_resolve_request p r namespace name =
     (CHR ''/'' \<notin> set namespace \<and> CHR ''/'' \<notin> set name
      \<and> req_Path r = api_path namespace (''pipelineruns/'' @ name @ ''/resolve'')
      \<and> CheckPipelineRunAccess (ps_world p) r namespace name = None)"

text \<open>
  The five sub-resource endpoints.  \<open>PodStatus\<close> carries the pod of the path; the two log
  endpoints take the pod from the query, and all three take the PipelineRun from it.
\<close>

datatype subresource = TaskRuns | Pods | PodStatus string | LogsFetch | LogsStream

definition authorized_subresource_request ::
  "ProxyServer \<Rightarrow> request \<Rightarrow> string \<Rightarrow> string \<Rightarrow> subresource \<Rightarrow> bool" where
  "authorized_subresource_request p r namespace name sub =
     (CHR ''/'' \<notin> set namespace \<and>
      (case sub of
         TaskRuns \<Rightarrow>
           CHR ''/'' \<notin> set name
           \<and> req_Path r = api_path namespace (''pipelineruns/'' @ name @ ''/taskruns'')
           \<and> CheckPipelineRunAccess (ps_world p) r namespace name = None
       | Pods \<Rightarrow>
           CHR ''/'' \<notin> set name
           \<and> req_Path r = api_path namespace (''pipelineruns/'' @ name @ ''/pods'')
           \<and> CheckPipelineRunAccess (ps_world p) r namespace name = None
       | PodStatus pod \<Rightarrow>
           CHR ''/'' \<notin> set pod
           \<and> req_Path r = api_path namespace (''pods/'' @ pod @ ''/status'')
           \<and> query_Get r ''pipelineRun'' = name \<and> name \<noteq> []
           \<and> CheckPodAccess (ps_world p) r namespace pod = None
       | LogsFetch \<Rightarrow>
           req_Path r = api_path namespace ''logs''
           \<and> query_Get r ''pipelineRun'' = name \<and> name \<noteq> []
           \<and> query_Get r ''pod'' \<noteq> []
           \<and> CheckPodLogsAccess (ps_world p) r namespace (query_Get r ''pod'') = None
       | LogsStream \<Rightarrow>
           req_Path r = api_path namespace ''logs/stream''
           \<and> query_Get r ''pipelineRun'' = name \<and> name \<noteq> []
           \<and> query_Get r ''pod'' \<noteq> []
           \<and> CheckPodLogsAccess (ps_world p) r namespace (query_Get r ''pod'') = None))"

text \<open>
  The Authorization header has the form of a bearer credential: two parts separated by a
  space, the first being \<open>bearer\<close> in any mix of cases.
\<close>

definition bearer_credential_form :: "string \<Rightarrow> bool" where
  "bearer_credential_form h =
     (CHR '' '' \<in> set h \<and> ToLower (takeWhile (\<lambda>c. c \<noteq> CHR '' '') h) = ''bearer'')"

text \<open>The request carries no usable credential: the header is absent, empty or not of
  that form.\<close>

definition no_credential :: "request \<Rightarrow> bool" where
  "no_credential r =
     (map_of (req_Header r) ''Authorization'' = None
      \<or> header_Get r ''Authorization'' = []
      \<or> \<not> bearer_credential_form (header_Get r ''Authorization''))"

text \<open>
  The shape of a trace in which the authorization check comes first: no call at all; or a
  failed check, nothing after it and the reply 403; or a granted check followed by calls
  that are not checks.
\<close>

fun checked_first :: "event list \<times> reply \<Rightarrow> bool" where
  "checked_first ([], rep) = True"
| "checked_first (CheckAccess attrs None # rest, rep) =
     list_all (\<lambda>ev. \<not> is_CheckAccess ev) rest"
| "checked_first (CheckAccess attrs (Some e) # rest, rep) =
     (rest = [] \<and> reply_Status rep = Some 403)"
| "checked_first (ev # rest, rep) = False"

section \<open>Concrete clusters for the worked examples\<close>

text \<open>Three workloads of one namespace: one owned by a Job, one still dispatching, one
  admitted to cluster \<open>c1\<close>; and a fourth that is admitted but carries no cluster name.\<close>

definition wl_job :: Workload where
  "wl_job = \<lparr>wl_Name = ''job-w0'',
             wl_OwnerReferences = [\<lparr>or_Kind = ''Job'', or_Name = ''pr1''\<rparr>],
             wl_Admission = None, wl_ClusterName = None\<rparr>"

definition wl_dispatching :: Workload where
  "wl_dispatching = \<lparr>wl_Name = ''w1'',
             wl_OwnerReferences = [\<lparr>or_Kind = ''PipelineRun'', or_Name = ''pr1''\<rparr>],
             wl_Admission = None, wl_ClusterName = None\<rparr>"

definition wl_admitted :: Workload where
  "wl_admitted = \<lparr>wl_Name = ''w2'',
             wl_OwnerReferences = [\<lparr>or_Kind = ''Job'', or_Name = ''pr2''\<rparr>,
                                   \<lparr>or_Kind = ''PipelineRun'', or_Name = ''pr2''\<rparr>],
             wl_Admission = Some \<lparr>adm_ClusterQueue = ''cq''\<rparr>,
             wl_ClusterName = Some ''c1''\<rparr>"

definition wl_unnamed_cluster :: Workload where
  "wl_unnamed_cluster = \<lparr>wl_Name = ''w3'',
             wl_OwnerReferences = [\<lparr>or_Kind = ''PipelineRun'', or_Name = ''pr3''\<rparr>],
             wl_Admission = Some \<lparr>adm_ClusterQueue = ''cq''\<rparr>,
             wl_ClusterName = None\<rparr>"

definition example_workloads :: "string \<Rightarrow> err + Workload list" where
  "example_workloads namespace =
     (if namespace = ''default'' then
        Inr [wl_job, wl_dispatching, wl_admitted, wl_unnamed_cluster]
      else Inr [])"

text \<open>Two registered worker clusters: \<open>c1\<close> with a usable secret, and \<open>c2\<close> whose
  registration points at a ConfigMap.  The secret \<open>broken\<close> lacks the kubeconfig key.\<close>

definition c1_config :: rest_Config where
  "c1_config = \<lparr>rc_Host = ''https://c1.example:6443'', rc_BearerToken = ''c1-token'',
                rc_Insecure = False\<rparr>"

definition mkc_c1 :: MultiKueueCluster where
  "mkc_c1 = \<lparr>mkc_Name = ''c1'',
             mkc_KubeConfig = \<lparr>kc_LocationType = ''Secret'', kc_Location = ''c1-secret''\<rparr>\<rparr>"

definition mkc_c2 :: MultiKueueCluster where
  "mkc_c2 = \<lparr>mkc_Name = ''c2'',
             mkc_KubeConfig = \<lparr>kc_LocationType = ''ConfigMap'', kc_Location = ''c2-cm''\<rparr>\<rparr>"

definition mkc_c3 :: MultiKueueCluster where
  "mkc_c3 = \<lparr>mkc_Name = ''c3'',
             mkc_KubeConfig = \<lparr>kc_LocationType = ''Secret'', kc_Location = ''broken''\<rparr>\<rparr>"

definition example_secrets :: "string \<Rightarrow> string \<Rightarrow> err + Secret" where
  "example_secrets namespace name =
     (if namespace = ''kueue-system'' \<and> name = ''c1-secret'' then
        Inr \<lparr>sec_Data = [''kubeconfig'' \<mapsto> ''kubeconfig-of-c1'']\<rparr>
      else if namespace = ''kueue-system'' \<and> name = ''broken'' then
        Inr \<lparr>sec_Data = [''token'' \<mapsto> ''x'']\<rparr>
      else Inl ''secrets not found'')"

definition example_parse :: "string \<Rightarrow> err + rest_Config" where
  "example_parse kubeconfigData =
     (if kubeconfigData = ''kubeconfig-of-c1'' then Inr c1_config
      else Inl ''invalid configuration'')"

text \<open>The hub grants everything to the token \<open>good-token\<close> and rejects any other; worker
  \<open>c1\<close> answers every call; the WebSocket upgrade succeeds.\<close>

definition example_conn :: wsConn where
  "example_conn = \<lparr>ws_HandshakeHeader =
                      [''Upgrade'' \<mapsto> ''websocket'', ''Connection'' \<mapsto> ''Upgrade'',
                       ''Sec-WebSocket-Accept'' \<mapsto> ''HSmrc0sMlYUkAGmm5OPpG2HaGWk=''],
                    ws_WritesBeforeFailure = None\<rparr>"

definition example_world :: world where
  "example_world =
     \<lparr>w_listWorkloads = example_workloads,
      w_newForConfig = (\<lambda>callerConfig. None),
      w_createSSAR = (\<lambda>callerConfig attrs.
         if rc_BearerToken callerConfig = ''good-token'' then
           Inr \<lparr>sar_Allowed = True, sar_Reason = []\<rparr>
         else Inl ''Unauthorized''),
      w_listMultiKueueClusters = Inr [mkc_c2, mkc_c1, mkc_c3],
      w_getSecret = example_secrets,
      w_RESTConfigFromKubeConfig = example_parse,
      w_newForConfigOrDie = (\<lambda>workerConfig. True),
      w_listTaskRuns = (\<lambda>workerConfig namespace selector.
         Inr (JObject [(''kind'', JString ''TaskRunList''), (''items'', JArray [])])),
      w_listPods = (\<lambda>workerConfig namespace selector.
         Inr (JObject [(''kind'', JString ''PodList''), (''items'', JArray [])])),
      w_getPod = (\<lambda>workerConfig namespace podName.
         Inr (JObject [(''kind'', JString ''Pod'')])),
      w_streamLogs = (\<lambda>workerConfig namespace podName logOptions.
         Inr \<lparr>ls_Chunks = [''Hello '', ''World''], ls_Error = None\<rparr>),
      w_upgrade = (\<lambda>r. Inr example_conn),
      w_now = 1762160000000000000\<rparr>"

definition example_config :: Config where
  "example_config = \<lparr>cfg_WorkersSecretNamespace = ''kueue-system'',
                      cfg_RequestTimeout = 30000000000,
                      cfg_DefaultLogTailLines = 100\<rparr>"

definition example_server :: ProxyServer where
  "example_server = \<lparr>ps_world = example_world,
                      ps_configs = [''c1'' \<mapsto> c1_config],
                      ps_config = example_config\<rparr>"

text \<open>The same server while worker \<open>c1\<close> refuses to list TaskRuns.\<close>

definition failing_worker_server :: ProxyServer where
  "failing_worker_server =
     example_server
       \<lparr>ps_world := example_world
          \<lparr>w_listTaskRuns := (\<lambda>workerConfig namespace selector. Inl ''connection refused'')\<rparr>\<rparr>"

text \<open>Requests of the documented shapes, with and without the good token.\<close>

definition good_header :: "(string \<times> string) list" where
  "good_header = [(''Authorization'', ''Bearer good-token'')]"

definition req_taskruns :: "string \<Rightarrow> request" where
  "req_taskruns name = \<lparr>req_Path = ''/api/v1/namespaces/default/pipelineruns/'' @ name
                                     @ ''/taskruns'',
                        req_Query = [], req_Header = good_header\<rparr>"

definition req_logs_stream :: request where
  "req_logs_stream = \<lparr>req_Path = ''/api/v1/namespaces/default/logs/stream'',
                      req_Query = [(''pipelineRun'', ''pr2''), (''pod'', ''pod-1''),
                                   (''container'', ''step-echo'')],
                      req_Header = good_header\<rparr>"

definition req_logs_no_pod :: request where
  "req_logs_no_pod = \<lparr>req_Path = ''/api/v1/namespaces/default/logs'',
                      req_Query = [(''pipelineRun'', ''pr2'')], req_Header = []\<rparr>"

definition req_resolve :: "string \<Rightarrow> request" where
  "req_resolve name = \<lparr>req_Path = ''/api/v1/namespaces/default/pipelineruns/'' @ name
                                    @ ''/resolve'',
                       req_Query = [], req_Header = good_header\<rparr>"

text \<open>A later moment: the registry's cache is empty and the caller spells the scheme in
  lower case, while the workloads are as before.\<close>

definition later_server :: ProxyServer where
  "later_server = example_server\<lparr>ps_configs := Map.empty\<rparr>"

definition later_req_resolve :: "string \<Rightarrow> request" where
  "later_req_resolve name = (req_resolve name)
     \<lparr>req_Header := [(''Authorization'', ''bearer good-token'')]\<rparr>"

text \<open>A bounded log fetch whose \<open>tailLines\<close> is not a number and whose \<open>sinceSeconds\<close>
  is negative.\<close>

definition req_logs_malformed :: request where
  "req_logs_malformed = \<lparr>req_Path = ''/api/v1/namespaces/default/logs'',
                         req_Query = [(''pipelineRun'', ''pr2''), (''pod'', ''pod-1''),
                                      (''container'', ''step-echo''), (''tailLines'', ''abc''),
                                      (''sinceSeconds'', ''-5'')],
                         req_Header = good_header\<rparr>"

text \<open>Callers without a usable credential: one sends Basic authentication, one a token
  the hub rejects.\<close>

definition req_basic_auth :: request where
  "req_basic_auth = (req_resolve ''pr2'')\<lparr>req_Header := [(''Authorization'', ''Basic dXNlcg=='')]\<rparr>"

definition req_bad_token :: request where
  "req_bad_token = (req_resolve ''pr2'')\<lparr>req_Header := [(''Authorization'', ''Bearer stale'')]\<rparr>"

text \<open>A cache holding \<open>c1\<close> and an entry \<open>c9\<close> whose registration is no longer listed, and
  the watch events: a change notification, then the deletion of \<open>c9\<close>.\<close>

definition cache_c1_c9 :: configs where
  "cache_c1_c9 = [''c1'' \<mapsto> c1_config, ''c9'' \<mapsto> c1_config]"

definition mkc_c9 :: MultiKueueCluster where
  "mkc_c9 = \<lparr>mkc_Name = ''c9'',
             mkc_KubeConfig = \<lparr>kc_LocationType = ''Secret'', kc_Location = ''c9-secret''\<rparr>\<rparr>"

definition example_events :: "(world \<times> watch_event) list" where
  "example_events =
     [(example_world, \<lparr>ev_Type = ''MODIFIED'', ev_Object = ClusterObject mkc_c1\<rparr>),
      (example_world, \<lparr>ev_Type = ''DELETED'', ev_Object = ClusterObject mkc_c9\<rparr>)]"

section \<open>Resolver: classification of the result\<close>

lemma ownerRefLoop_iff:
  "ownerRefLoop refs n = list_ex (\<lambda>ref. or_Kind ref = ''PipelineRun'' \<and> or_Name ref = n) refs"
  by (induction refs) auto

lemma workloadLoop_find:
  "workloadLoop items n = find (ownedByPipelineRun n) items"
  by (induction items) (auto simp: ownedByPipelineRun_def ownerRefLoop_iff)

text \<open>
  Claim C1.  Let the namespace's workload list be \<open>items\<close>.  If no workload in it is owned
  by the PipelineRun, \<open>ResolveWorkerCluster\<close> reports the not-found error.  Otherwise let
  \<open>w\<close> be the workload the scan finds (the first owned one): with \<open>Status.Admission\<close> unset
  the result is state \<open>Dispatching\<close>, the workload's name and an empty cluster name; with
  \<open>Status.Admission\<close> set it is state \<open>Admitted\<close>, the workload's name and
  \<open>Status.ClusterName\<close>, the empty string standing in for a nil pointer (and an empty
  name being passed on as it is), never an error.
\<close>

theorem ResolveWorkerCluster_classifies:
  assumes "listWorkloads namespace = Inr items"
  shows "((\<forall>w \<in> set items. \<not> ownedByPipelineRun name w) \<longrightarrow>
           ResolveWorkerCluster listWorkloads namespace name =
             Inl (''no workload found for PipelineRun '' @ namespace @ ''/'' @ name))
       \<and> (\<forall>w. find (ownedByPipelineRun name) items = Some w \<and> wl_Admission w = None \<longrightarrow>
           ResolveWorkerCluster listWorkloads namespace name =
             Inr \<lparr>wc_Name = [], wc_State = ''Dispatching'', wc_NominatedClusters = [],
                  wc_WorkloadName = wl_Name w\<rparr>)
       \<and> (\<forall>w. find (ownedByPipelineRun name) items = Some w \<and> wl_Admission w \<noteq> None \<longrightarrow>
           ResolveWorkerCluster listWorkloads namespace name =
             Inr \<lparr>wc_Name = (case wl_ClusterName w of None \<Rightarrow> [] | Some c \<Rightarrow> c),
                  wc_State = ''Admitted'', wc_NominatedClusters = [],
                  wc_WorkloadName = wl_Name w\<rparr>)"
proof (intro conjI allI impI)
  assume "\<forall>w \<in> set items. \<not> ownedByPipelineRun name w"
  then have "find (ownedByPipelineRun name) items = None"
    by (simp add: find_None_iff)
  with assms show "ResolveWorkerCluster listWorkloads namespace name =
      Inl (''no workload found for PipelineRun '' @ namespace @ ''/'' @ name)"
    by (simp add: ResolveWorkerCluster_def findWorkloadByPipelineRun_def workloadLoop_find)
next
  fix w
  assume "find (ownedByPipelineRun name) items = Some w \<and> wl_Admission w = None"
  with assms show "ResolveWorkerCluster listWorkloads namespace name =
      Inr \<lparr>wc_Name = [], wc_State = ''Dispatching'', wc_NominatedClusters = [],
           wc_WorkloadName = wl_Name w\<rparr>"
    by (simp add: ResolveWorkerCluster_def findWorkloadByPipelineRun_def workloadLoop_find)
next
  fix w
  assume "find (ownedByPipelineRun name) items = Some w \<and> wl_Admission w \<noteq> None"
  with assms show "ResolveWorkerCluster listWorkloads namespace name =
      Inr \<lparr>wc_Name = (case wl_ClusterName w of None \<Rightarrow> [] | Some c \<Rightarrow> c),
           wc_State = ''Admitted'', wc_NominatedClusters = [],
           wc_WorkloadName = wl_Name w\<rparr>"
    by (auto simp: ResolveWorkerCluster_def findWorkloadByPipelineRun_def workloadLoop_find)
qed


theorem ResolveWorkerCluster_classifies_witness:
  "example_workloads ''default'' = Inr [wl_job, wl_dispatching, wl_admitted, wl_unnamed_cluster]
   \<and> ResolveWorkerCluster example_workloads ''default'' ''pr0'' =
       Inl ''no workload found for PipelineRun default/pr0''
   \<and> ResolveWorkerCluster example_workloads ''default'' ''pr1'' =
       Inr \<lparr>wc_Name = [], wc_State = ''Dispatching'', wc_NominatedClusters = [],
            wc_WorkloadName = ''w1''\<rparr>
   \<and> ResolveWorkerCluster example_workloads ''default'' ''pr2'' =
       Inr \<lparr>wc_Name = ''c1'', wc_State = ''Admitted'', wc_NominatedClusters = [],
            wc_WorkloadName = ''w2''\<rparr>
   \<and> ResolveWorkerCluster example_workloads ''default'' ''pr3'' =
       Inr \<lparr>wc_Name = [], wc_State = ''Admitted'', wc_NominatedClusters = [],
            wc_WorkloadName = ''w3''\<rparr>"
proof -
  have items: "example_workloads ''default'' =
      Inr [wl_job, wl_dispatching, wl_admitted, wl_unnamed_cluster]"
    by (simp add: example_workloads_def)
  have f0: "\<forall>w \<in> set [wl_job, wl_dispatching, wl_admitted, wl_unnamed_cluster].
      \<not> ownedByPipelineRun ''pr0'' w"
    by (simp add: ownedByPipelineRun_def wl_job_def wl_dispatching_def wl_admitted_def
        wl_unnamed_cluster_def)
  have f1: "find (ownedByPipelineRun ''pr1'')
      [wl_job, wl_dispatching, wl_admitted, wl_unnamed_cluster] = Some wl_dispatching
      \<and> wl_Admission wl_dispatching = None"
    by (simp add: ownedByPipelineRun_def wl_job_def wl_dispatching_def)
  have f2: "find (ownedByPipelineRun ''pr2'')
      [wl_job, wl_dispatching, wl_admitted, wl_unnamed_cluster] = Some wl_admitted
      \<and> wl_Admission wl_admitted \<noteq> None"
    by (simp add: ownedByPipelineRun_def wl_job_def wl_dispatching_def wl_admitted_def)
  have f3: "find (ownedByPipelineRun ''pr3'')
      [wl_job, wl_dispatching, wl_admitted, wl_unnamed_cluster] = Some wl_unnamed_cluster
      \<and> wl_Admission wl_unnamed_cluster \<noteq> None"
    by (simp add: ownedByPipelineRun_def wl_job_def wl_dispatching_def wl_admitted_def
        wl_unnamed_cluster_def)
  note c0 = ResolveWorkerCluster_classifies [of example_workloads "''default''"
      "[wl_job, wl_dispatching, wl_admitted, wl_unnamed_cluster]" "''pr0''", OF items]
  note c1 = ResolveWorkerCluster_classifies [of example_workloads "''default''"
      "[wl_job, wl_dispatching, wl_admitted, wl_unnamed_cluster]" "''pr1''", OF items]
  note c2 = ResolveWorkerCluster_classifies [of example_workloads "''default''"
      "[wl_job, wl_dispatching, wl_admitted, wl_unnamed_cluster]" "''pr2''", OF items]
  note c3 = ResolveWorkerCluster_classifies [of example_workloads "''default''"
      "[wl_job, wl_dispatching, wl_admitted, wl_unnamed_cluster]" "''pr3''", OF items]
  have r0: "ResolveWorkerCluster example_workloads ''default'' ''pr0'' =
       Inl ''no workload found for PipelineRun default/pr0''"
    using c0 f0 by simp
  have r1: "ResolveWorkerCluster example_workloads ''default'' ''pr1'' =
       Inr \<lparr>wc_Name = [], wc_State = ''Dispatching'', wc_NominatedClusters = [],
            wc_WorkloadName = ''w1''\<rparr>"
    using c1 f1 by (simp add: wl_dispatching_def)
  have r2: "ResolveWorkerCluster example_workloads ''default'' ''pr2'' =
       Inr \<lparr>wc_Name = ''c1'', wc_State = ''Admitted'', wc_NominatedClusters = [],
            wc_WorkloadName = ''w2''\<rparr>"
    using c2 f2 by (simp add: wl_admitted_def)
  have r3: "ResolveWorkerCluster example_workloads ''default'' ''pr3'' =
       Inr \<lparr>wc_Name = [], wc_State = ''Admitted'', wc_NominatedClusters = [],
            wc_WorkloadName = ''w3''\<rparr>"
    using c3 f3 by (simp add: wl_unnamed_cluster_def)
  show ?thesis using items r0 r1 r2 r3 by simp
qed

section \<open>Paths and routing\<close>

lemma Split_nonempty: "Split s c \<noteq> []"
  by (induction s) (auto split: list.splits)

lemma Split_no_sep: "c \<notin> set s \<Longrightarrow> Split s c = [s]"
  by (induction s) auto

lemma Split_at_sep: "c \<notin> set a \<Longrightarrow> Split (a @ c # b) c = a # Split b c"
  by (induction a) (auto split: list.splits)

lemma Split_length_sep: "c \<in> set s \<Longrightarrow> 2 \<le> length (Split s c)"
proof (induction s)
  case Nil
  then show ?case by simp
next
  case (Cons x xs)
  show ?case
  proof (cases "x = c")
    case True
    then show ?thesis using Split_nonempty [of xs c] by (cases "Split xs c") auto
  next
    case False
    with Cons show ?thesis by (auto split: list.splits)
  qed
qed

lemma Join_Cons: "ps \<noteq> [] \<Longrightarrow> Join (p # ps) c = p @ c # Join ps c"
  by (cases ps) auto

lemma Join_Split: "Join (Split s c) c = s"
proof (induction s)
  case Nil
  then show ?case by simp
next
  case (Cons x xs)
  then show ?case
    using Split_nonempty [of xs c]
    by (cases "Split xs c"; cases "tl (Split xs c)") (auto simp: Join_Cons)
qed

lemma HasPrefix_set: "HasPrefix s pre \<Longrightarrow> set pre \<subseteq> set s"
  by (metis HasPrefix_def set_take_subset)

lemma TrimPrefix_append: "TrimPrefix (pre @ s) pre = s"
  by (simp add: TrimPrefix_def HasPrefix_def)

lemma after_simps:
  "fst (after evs res) = evs @ fst res" "snd (after evs res) = snd res"
  by (simp_all add: after_def)

lemma namespacePathParts_api:
  assumes "CHR ''/'' \<notin> set ns" and "req_Path r = api_path ns rp"
  shows "namespacePathParts r = ns # Split rp CHR ''/''"
proof -
  have "TrimPrefix (req_Path r) ''/api/v1/namespaces/'' = ns @ CHR ''/'' # rp"
    unfolding assms(2) api_path_def by (simp only: TrimPrefix_append) simp
  then show ?thesis
    unfolding namespacePathParts_def using assms(1) by (simp add: Split_at_sep del: Split.simps)
qed

lemma handleNamespaceRequest_parts:
  "handleNamespaceRequest p r =
     (if length (namespacePathParts r) < 2 then ([], http_Error ''Invalid path'' 400)
      else if HasPrefix (resourcePathOf r) ''pipelineruns/'' then
             handlePipelineRunRequest p r (namespacePathParts r ! 0) (resourcePathOf r)
      else if HasPrefix (resourcePathOf r) ''pods/'' then
             handlePodRequest p r (namespacePathParts r ! 0) (resourcePathOf r)
      else if HasPrefix (resourcePathOf r) ''logs'' then
             handleLogsRequest p r (namespacePathParts r ! 0) (resourcePathOf r)
      else ([], http_Error ''Unknown resource'' 404))"
  by (simp add: handleNamespaceRequest_def resourcePathOf_def namespacePathParts_def Let_def)

lemma route_namespace:
  assumes "CHR ''/'' \<notin> set ns" and "req_Path r = api_path ns rp"
  shows "handleNamespaceRequest p r =
     (if HasPrefix rp ''pipelineruns/'' then handlePipelineRunRequest p r ns rp
      else if HasPrefix rp ''pods/'' then handlePodRequest p r ns rp
      else if HasPrefix rp ''logs'' then handleLogsRequest p r ns rp
      else ([], http_Error ''Unknown resource'' 404))"
proof -
  note parts = namespacePathParts_api [OF assms]
  have len: "\<not> length (namespacePathParts r) < 2"
    using Split_nonempty [of rp "CHR ''/''"] by (cases "Split rp CHR ''/''") (auto simp: parts)
  have rp: "resourcePathOf r = rp"
    by (simp add: resourcePathOf_def parts Join_Split)
  show ?thesis
    unfolding handleNamespaceRequest_parts using len by (simp add: rp parts)
qed

lemma route_resolve:
  assumes "authorized_resolve_request p r ns name"
  shows "handleNamespaceRequest p r =
     after [CheckAccess (pipelineRunAttributes ns name) None] (handleResolve p r ns name)"
proof -
  from assms have ns: "CHR ''/'' \<notin> set ns" and name: "CHR ''/'' \<notin> set name"
    and path: "req_Path r = api_path ns (''pipelineruns/'' @ name @ ''/resolve'')"
    and ok: "CheckPipelineRunAccess (ps_world p) r ns name = None"
    by (simp_all add: authorized_resolve_request_def)
  show ?thesis
    unfolding route_namespace [OF ns path] using name ok
    by (simp add: HasPrefix_def handlePipelineRunRequest_def Split_at_sep)
qed


lemma route_subresource:
  assumes "authorized_subresource_request p r ns name sub"
  shows "handleNamespaceRequest p r =
     (case sub of
        TaskRuns \<Rightarrow> after [CheckAccess (pipelineRunAttributes ns name) None]
                      (handleTaskRuns p r ns name)
      | Pods \<Rightarrow> after [CheckAccess (pipelineRunAttributes ns name) None]
                      (handlePipelineRunPods p r ns name)
      | PodStatus pod \<Rightarrow> after [CheckAccess (podAttributes ns pod) None]
                      (handlePodStatus p r ns pod)
      | LogsFetch \<Rightarrow> after [CheckAccess (podLogsAttributes ns (query_Get r ''pod'')) None]
                      (handleLogsFetch p r ns (query_Get r ''pod'') (query_Get r ''container''))
      | LogsStream \<Rightarrow> after [CheckAccess (podLogsAttributes ns (query_Get r ''pod'')) None]
                      (handleLogsStream p r ns (query_Get r ''pod'') (query_Get r ''container'')))"
proof -
  from assms have ns: "CHR ''/'' \<notin> set ns"
    by (simp add: authorized_subresource_request_def)
  show ?thesis
  proof (cases sub)
    case TaskRuns
    with assms have name: "CHR ''/'' \<notin> set name"
      and path: "req_Path r = api_path ns (''pipelineruns/'' @ name @ ''/taskruns'')"
      and ok: "CheckPipelineRunAccess (ps_world p) r ns name = None"
      by (simp_all add: authorized_subresource_request_def)
    show ?thesis
      unfolding route_namespace [OF ns path] using name ok TaskRuns
      by (simp add: HasPrefix_def handlePipelineRunRequest_def Split_at_sep)
  next
    case Pods
    with assms have name: "CHR ''/'' \<notin> set name"
      and path: "req_Path r = api_path ns (''pipelineruns/'' @ name @ ''/pods'')"
      and ok: "CheckPipelineRunAccess (ps_world p) r ns name = None"
      by (simp_all add: authorized_subresource_request_def)
    show ?thesis
      unfolding route_namespace [OF ns path] using name ok Pods
      by (simp add: HasPrefix_def handlePipelineRunRequest_def Split_at_sep)
  next
    case (PodStatus pod)
    with assms have pod: "CHR ''/'' \<notin> set pod"
      and path: "req_Path r = api_path ns (''pods/'' @ pod @ ''/status'')"
      and ok: "CheckPodAccess (ps_world p) r ns pod = None"
      by (simp_all add: authorized_subresource_request_def)
    show ?thesis
      unfolding route_namespace [OF ns path] using pod ok PodStatus
      by (simp add: HasPrefix_def handlePodRequest_def Split_at_sep)
  next
    case LogsFetch
    with assms have path: "req_Path r = api_path ns ''logs''"
      and pod: "query_Get r ''pod'' \<noteq> []"
      and ok: "CheckPodLogsAccess (ps_world p) r ns (query_Get r ''pod'') = None"
      by (simp_all add: authorized_subresource_request_def)
    show ?thesis
      unfolding route_namespace [OF ns path] using pod ok LogsFetch
      by (simp add: HasPrefix_def HasSuffix_def handleLogsRequest_def Let_def)
  next
    case LogsStream
    with assms have path: "req_Path r = api_path ns ''logs/stream''"
      and pod: "query_Get r ''pod'' \<noteq> []"
      and ok: "CheckPodLogsAccess (ps_world p) r ns (query_Get r ''pod'') = None"
      by (simp_all add: authorized_subresource_request_def)
    show ?thesis
      unfolding route_namespace [OF ns path] using pod ok LogsStream
      by (simp add: HasPrefix_def HasSuffix_def handleLogsRequest_def Let_def)
  qed
qed


section \<open>Evaluation on the worked examples\<close>

lemmas example_defs = example_server_def failing_worker_server_def example_world_def
  example_workloads_def wl_job_def wl_dispatching_def wl_admitted_def wl_unnamed_cluster_def
  c1_config_def example_config_def good_header_def example_conn_def

lemmas handler_defs = handleNamespaceRequest_def handlePipelineRunRequest_def
  handlePodRequest_def handleLogsRequest_def handleResolve_def handleTaskRuns_def
  handlePipelineRunPods_def handlePodStatus_def handleLogsFetch_def handleLogsStream_def
  CheckPipelineRunAccess_def CheckPodAccess_def CheckPodLogsAccess_def
  reviewWithCallerToken_def extractBearerToken_def SplitN2_def ToLower_def toLower_char_def
  header_Get_def query_Get_def HasPrefix_def HasSuffix_def TrimPrefix_def
  ResolveWorkerCluster_def findWorkloadByPipelineRun_def GetConfig_def after_def
  http_Error_def reply_Status_def reply_Header_def reply_Body_def Let_def

section \<open>What the resolver depends on\<close>

lemma Resolve_cong:
  "lw1 ns = lw2 ns \<Longrightarrow> ResolveWorkerCluster lw1 ns name = ResolveWorkerCluster lw2 ns name"
  by (simp add: ResolveWorkerCluster_def findWorkloadByPipelineRun_def)

lemma Resolve_find:
  assumes "lw ns = Inr items"
  shows "ResolveWorkerCluster lw ns name =
     (case find (ownedByPipelineRun name) items of
        None \<Rightarrow> Inl (''no workload found for PipelineRun '' @ ns @ ''/'' @ name)
      | Some w \<Rightarrow>
          if wl_Admission w \<noteq> None then
            Inr \<lparr>wc_Name = (case wl_ClusterName w of None \<Rightarrow> [] | Some c \<Rightarrow> c),
                 wc_State = ''Admitted'', wc_NominatedClusters = [],
                 wc_WorkloadName = wl_Name w\<rparr>
          else Inr \<lparr>wc_Name = [], wc_State = ''Dispatching'', wc_NominatedClusters = [],
                    wc_WorkloadName = wl_Name w\<rparr>)"
  using assms
  by (simp add: ResolveWorkerCluster_def findWorkloadByPipelineRun_def workloadLoop_find
      split: option.splits)

section \<open>The resolve endpoint\<close>

text \<open>
  Claim C3.  For a \<open>/resolve\<close> request by an authorized caller, with \<open>items\<close> the workloads
  of the namespace: when none is owned by the PipelineRun the status is 404; when the
  workload found has no admission the status is 409 and the JSON body has exactly the
  fields \<open>state\<close> (\<open>Dispatching\<close>) and \<open>workloadName\<close>, and no \<open>name\<close> field (the workload's
  name being non-empty, as the API server requires of every stored object); when it has an
  admission the status is 200 and the body is the encoded assignment.
\<close>

theorem resolve_status_and_body:
  assumes "authorized_resolve_request p r ns name"
      and "w_listWorkloads (ps_world p) ns = Inr items"
  shows "(find (ownedByPipelineRun name) items = None \<longrightarrow>
            reply_Status (snd (handleNamespaceRequest p r)) = Some 404)
       \<and> (\<forall>w. find (ownedByPipelineRun name) items = Some w \<and> wl_Admission w = None \<longrightarrow>
            reply_Status (snd (handleNamespaceRequest p r)) = Some 409
            \<and> (wl_Name w \<noteq> [] \<longrightarrow>
                 reply_Body (snd (handleNamespaceRequest p r)) =
                   Some (Json (JObject [(''state'', JString ''Dispatching''),
                                        (''workloadName'', JString (wl_Name w))]))))
       \<and> (\<forall>w. find (ownedByPipelineRun name) items = Some w \<and> wl_Admission w \<noteq> None \<longrightarrow>
            reply_Status (snd (handleNamespaceRequest p r)) = Some 200
            \<and> reply_Body (snd (handleNamespaceRequest p r)) =
                 Some (Json (encode_WorkerCluster
                   \<lparr>wc_Name = (case wl_ClusterName w of None \<Rightarrow> [] | Some c \<Rightarrow> c),
                    wc_State = ''Admitted'', wc_NominatedClusters = [],
                    wc_WorkloadName = wl_Name w\<rparr>)))"
  unfolding route_resolve [OF assms(1)] after_simps handleResolve_def
    Resolve_find [of "w_listWorkloads (ps_world p)" ns items name, OF assms(2)]
  by (auto simp: reply_Status_def reply_Body_def http_Error_def encode_WorkerCluster_def)

theorem resolve_status_and_body_witness:
  "authorized_resolve_request example_server (req_resolve ''pr0'') ''default'' ''pr0''
   \<and> reply_Status (snd (handleNamespaceRequest example_server (req_resolve ''pr0''))) = Some 404
   \<and> authorized_resolve_request example_server (req_resolve ''pr1'') ''default'' ''pr1''
   \<and> reply_Status (snd (handleNamespaceRequest example_server (req_resolve ''pr1''))) = Some 409
   \<and> reply_Body (snd (handleNamespaceRequest example_server (req_resolve ''pr1''))) =
       Some (Json (JObject [(''state'', JString ''Dispatching''),
                            (''workloadName'', JString ''w1'')]))
   \<and> authorized_resolve_request example_server (req_resolve ''pr2'') ''default'' ''pr2''
   \<and> reply_Status (snd (handleNamespaceRequest example_server (req_resolve ''pr2''))) = Some 200
   \<and> reply_Body (snd (handleNamespaceRequest example_server (req_resolve ''pr2''))) =
       Some (Json (JObject [(''name'', JString ''c1''), (''state'', JString ''Admitted''),
                            (''workloadName'', JString ''w2'')]))"
proof -
  have auth: "authorized_resolve_request example_server (req_resolve n) ''default'' n"
    if "n \<in> {''pr0'', ''pr1'', ''pr2''}" for n
    using that
    by (auto simp: authorized_resolve_request_def api_path_def req_resolve_def example_defs
        handler_defs)
  have items: "w_listWorkloads (ps_world example_server) ''default'' =
      Inr [wl_job, wl_dispatching, wl_admitted, wl_unnamed_cluster]"
    by (simp add: example_server_def example_world_def example_workloads_def)
  have f0: "find (ownedByPipelineRun ''pr0'')
      [wl_job, wl_dispatching, wl_admitted, wl_unnamed_cluster] = None"
    by (simp add: ownedByPipelineRun_def wl_job_def wl_dispatching_def wl_admitted_def
        wl_unnamed_cluster_def)
  have f1: "find (ownedByPipelineRun ''pr1'')
      [wl_job, wl_dispatching, wl_admitted, wl_unnamed_cluster] = Some wl_dispatching
      \<and> wl_Admission wl_dispatching = None"
    by (simp add: ownedByPipelineRun_def wl_job_def wl_dispatching_def)
  have f2: "find (ownedByPipelineRun ''pr2'')
      [wl_job, wl_dispatching, wl_admitted, wl_unnamed_cluster] = Some wl_admitted
      \<and> wl_Admission wl_admitted \<noteq> None"
    by (simp add: ownedByPipelineRun_def wl_job_def wl_dispatching_def wl_admitted_def)
  have a0: "authorized_resolve_request example_server (req_resolve ''pr0'') ''default'' ''pr0''"
    and a1: "authorized_resolve_request example_server (req_resolve ''pr1'') ''default'' ''pr1''"
    and a2: "authorized_resolve_request example_server (req_resolve ''pr2'') ''default'' ''pr2''"
    by (simp_all add: auth)
  note t0 = resolve_status_and_body [OF a0 items]
  note t1 = resolve_status_and_body [OF a1 items]
  note t2 = resolve_status_and_body [OF a2 items]
  have r0: "reply_Status (snd (handleNamespaceRequest example_server (req_resolve ''pr0'')))
      = Some 404"
    using t0 f0 by simp
  have r1: "reply_Status (snd (handleNamespaceRequest example_server (req_resolve ''pr1'')))
      = Some 409
    \<and> reply_Body (snd (handleNamespaceRequest example_server (req_resolve ''pr1''))) =
       Some (Json (JObject [(''state'', JString ''Dispatching''),
                            (''workloadName'', JString ''w1'')]))"
    using t1 f1 by (simp add: wl_dispatching_def)
  have r2: "reply_Status (snd (handleNamespaceRequest example_server (req_resolve ''pr2'')))
      = Some 200
    \<and> reply_Body (snd (handleNamespaceRequest example_server (req_resolve ''pr2''))) =
       Some (Json (JObject [(''name'', JString ''c1''), (''state'', JString ''Admitted''),
                            (''workloadName'', JString ''w2'')]))"
    using t2 f2 by (simp add: wl_admitted_def encode_WorkerCluster_def)
  show ?thesis using a0 a1 a2 r0 r1 r2 by simp
qed

section \<open>Sub-resource requests before the worker is contacted\<close>

lemma handleTaskRuns_not_served:
  assumes "ResolveWorkerCluster (w_listWorkloads (ps_world p)) ns name = Inr wc"
  shows "wc_State wc \<noteq> ''Admitted'' \<Longrightarrow> handleTaskRuns p r ns name =
           ([ResolverLookup ns name],
            http_Error ''PipelineRun not admitted to worker cluster'' 409)"
    and "wc_State wc = ''Admitted'' \<Longrightarrow> ps_configs p (wc_Name wc) = None \<Longrightarrow>
         handleTaskRuns p r ns name =
           ([ResolverLookup ns name],
            http_Error (''Worker config not found: worker config not found for cluster: ''
                        @ wc_Name wc) 424)"
  using assms by (simp_all add: handleTaskRuns_def after_def GetConfig_def)

lemma handlePipelineRunPods_not_served:
  assumes "ResolveWorkerCluster (w_listWorkloads (ps_world p)) ns name = Inr wc"
  shows "wc_State wc \<noteq> ''Admitted'' \<Longrightarrow> handlePipelineRunPods p r ns name =
           ([ResolverLookup ns name],
            http_Error ''PipelineRun not admitted to worker cluster'' 409)"
    and "wc_State wc = ''Admitted'' \<Longrightarrow> ps_configs p (wc_Name wc) = None \<Longrightarrow>
         handlePipelineRunPods p r ns name =
           ([ResolverLookup ns name],
            http_Error (''Worker config not found: worker config not found for cluster: ''
                        @ wc_Name wc) 424)"
  using assms by (simp_all add: handlePipelineRunPods_def after_def GetConfig_def)

lemma handlePodStatus_not_served:
  assumes "ResolveWorkerCluster (w_listWorkloads (ps_world p)) ns name = Inr wc"
      and "query_Get r ''pipelineRun'' = name" and "name \<noteq> []"
  shows "wc_State wc \<noteq> ''Admitted'' \<Longrightarrow> handlePodStatus p r ns pod =
           ([ResolverLookup ns name],
            http_Error ''PipelineRun not admitted to worker cluster'' 409)"
    and "wc_State wc = ''Admitted'' \<Longrightarrow> ps_configs p (wc_Name wc) = None \<Longrightarrow>
         handlePodStatus p r ns pod =
           ([ResolverLookup ns name],
            http_Error (''Worker config not found: worker config not found for cluster: ''
                        @ wc_Name wc) 424)"
  using assms by (simp_all add: handlePodStatus_def after_def GetConfig_def)

lemma handleLogsFetch_not_served:
  assumes "ResolveWorkerCluster (w_listWorkloads (ps_world p)) ns name = Inr wc"
      and "query_Get r ''pipelineRun'' = name" and "name \<noteq> []"
  shows "wc_State wc \<noteq> ''Admitted'' \<Longrightarrow> handleLogsFetch p r ns pod c =
           ([ResolverLookup ns name],
            http_Error ''PipelineRun not admitted to worker cluster'' 409)"
    and "wc_State wc = ''Admitted'' \<Longrightarrow> ps_configs p (wc_Name wc) = None \<Longrightarrow>
         handleLogsFetch p r ns pod c =
           ([ResolverLookup ns name],
            http_Error (''Worker config not found: worker config not found for cluster: ''
                        @ wc_Name wc) 424)"
  using assms by (simp_all add: handleLogsFetch_def after_def GetConfig_def)

lemma handleLogsStream_not_served:
  assumes "ResolveWorkerCluster (w_listWorkloads (ps_world p)) ns name = Inr wc"
      and "query_Get r ''pipelineRun'' = name" and "name \<noteq> []"
  shows "wc_State wc \<noteq> ''Admitted'' \<Longrightarrow> handleLogsStream p r ns pod c =
           ([ResolverLookup ns name],
            http_Error ''PipelineRun not admitted to worker cluster'' 409)"
    and "wc_State wc = ''Admitted'' \<Longrightarrow> ps_configs p (wc_Name wc) = None \<Longrightarrow>
         handleLogsStream p r ns pod c =
           ([ResolverLookup ns name],
            http_Error (''Worker config not found: worker config not found for cluster: ''
                        @ wc_Name wc) 424)"
  using assms by (simp_all add: handleLogsStream_def after_def GetConfig_def)

text \<open>
  Claim C4.  For an authorized request to any of the five sub-resource endpoints
  (TaskRuns, Pods, Pod status, bounded log fetch, log stream) whose PipelineRun resolves
  to \<open>wc\<close>: if the state of \<open>wc\<close> is not \<open>Admitted\<close> the status is 409, and if it is
  \<open>Admitted\<close> but the registry's cache has no entry for the cluster name of \<open>wc\<close> the
  status is 424; in both cases no request is sent to any worker cluster.
\<close>

theorem subresource_not_served:
  assumes "authorized_subresource_request p r ns name sub"
      and "ResolveWorkerCluster (w_listWorkloads (ps_world p)) ns name = Inr wc"
  shows "(wc_State wc \<noteq> ''Admitted'' \<longrightarrow>
            reply_Status (snd (handleNamespaceRequest p r)) = Some 409
            \<and> (\<forall>ev \<in> set (fst (handleNamespaceRequest p r)). \<not> is_WorkerCall ev))
       \<and> (wc_State wc = ''Admitted'' \<and> ps_configs p (wc_Name wc) = None \<longrightarrow>
            reply_Status (snd (handleNamespaceRequest p r)) = Some 424
            \<and> (\<forall>ev \<in> set (fst (handleNamespaceRequest p r)). \<not> is_WorkerCall ev))"
proof (cases sub)
  case TaskRuns
  show ?thesis
    using route_subresource [OF assms(1)] handleTaskRuns_not_served [OF assms(2), of r] TaskRuns
    by (auto simp: after_def reply_Status_def http_Error_def)
next
  case Pods
  show ?thesis
    using route_subresource [OF assms(1)] handlePipelineRunPods_not_served [OF assms(2), of r] Pods
    by (auto simp: after_def reply_Status_def http_Error_def)
next
  case (PodStatus pod)
  with assms(1) have q: "query_Get r ''pipelineRun'' = name" "name \<noteq> []"
    by (simp_all add: authorized_subresource_request_def)
  show ?thesis
    using route_subresource [OF assms(1)] handlePodStatus_not_served [OF assms(2) q, of pod] PodStatus
    by (auto simp: after_def reply_Status_def http_Error_def)
next
  case LogsFetch
  with assms(1) have q: "query_Get r ''pipelineRun'' = name" "name \<noteq> []"
    by (simp_all add: authorized_subresource_request_def)
  show ?thesis
    using route_subresource [OF assms(1)]
      handleLogsFetch_not_served [OF assms(2) q, of "query_Get r ''pod''" "query_Get r ''container''"]
      LogsFetch
    by (auto simp: after_def reply_Status_def http_Error_def)
next
  case LogsStream
  with assms(1) have q: "query_Get r ''pipelineRun'' = name" "name \<noteq> []"
    by (simp_all add: authorized_subresource_request_def)
  show ?thesis
    using route_subresource [OF assms(1)]
      handleLogsStream_not_served [OF assms(2) q, of "query_Get r ''pod''" "query_Get r ''container''"]
      LogsStream
    by (auto simp: after_def reply_Status_def http_Error_def)
qed


theorem subresource_not_served_witness:
  "authorized_subresource_request example_server (req_taskruns ''pr1'') ''default'' ''pr1''
     TaskRuns
   \<and> reply_Status (snd (handleNamespaceRequest example_server (req_taskruns ''pr1'')))
       = Some 409
   \<and> list_all (\<lambda>ev. \<not> is_WorkerCall ev)
        (fst (handleNamespaceRequest example_server (req_taskruns ''pr1'')))
   \<and> authorized_subresource_request later_server req_logs_stream ''default'' ''pr2'' LogsStream
   \<and> reply_Status (snd (handleNamespaceRequest later_server req_logs_stream)) = Some 424
   \<and> list_all (\<lambda>ev. \<not> is_WorkerCall ev)
        (fst (handleNamespaceRequest later_server req_logs_stream))"
proof -
  have a1: "authorized_subresource_request example_server (req_taskruns ''pr1'') ''default''
      ''pr1'' TaskRuns"
    by (simp add: authorized_subresource_request_def api_path_def req_taskruns_def
        example_defs handler_defs)
  have r1: "ResolveWorkerCluster (w_listWorkloads (ps_world example_server)) ''default''
      ''pr1'' = Inr \<lparr>wc_Name = [], wc_State = ''Dispatching'', wc_NominatedClusters = [],
                        wc_WorkloadName = ''w1''\<rparr>"
    by (simp add: example_defs handler_defs)
  have a2: "authorized_subresource_request later_server req_logs_stream ''default'' ''pr2''
      LogsStream"
    by (simp add: authorized_subresource_request_def api_path_def req_logs_stream_def
        later_server_def example_defs handler_defs)
  have r2: "ResolveWorkerCluster (w_listWorkloads (ps_world later_server)) ''default''
      ''pr2'' = Inr \<lparr>wc_Name = ''c1'', wc_State = ''Admitted'', wc_NominatedClusters = [],
                        wc_WorkloadName = ''w2''\<rparr>"
    by (simp add: later_server_def example_defs handler_defs)
  have none: "ps_configs later_server ''c1'' = None"
    by (simp add: later_server_def)
  show ?thesis
    using a1 a2 subresource_not_served [OF a1 r1] subresource_not_served [OF a2 r2] none
    by (simp add: list_all_iff)
qed

section \<open>Bounded log fetch: the numeric query parameters\<close>

lemma fetch_logOptions_tail:
  "ParseInt (query_Get r ''tailLines'') = None \<Longrightarrow>
   plo_TailLines (fetch_logOptions p r c) = Some (cfg_DefaultLogTailLines (ps_config p))"
  by (simp add: fetch_logOptions_def fetch_tailLines_def Let_def)

lemma fetch_logOptions_since:
  "query_Get r ''sinceSeconds'' = [] \<or> ParseInt (query_Get r ''sinceSeconds'') = None
     \<or> (\<exists>s. ParseInt (query_Get r ''sinceSeconds'') = Some s \<and> s \<le> 0) \<Longrightarrow>
   plo_SinceTime (fetch_logOptions p r c) = None"
  by (auto simp: fetch_logOptions_def fetch_sinceSeconds_def Let_def)

lemma handleLogsFetch_call:
  "WorkerCall (GetLogs cfg ns' pod' opts) \<in> set (fst (handleLogsFetch p r ns pod c)) \<Longrightarrow>
   opts = fetch_logOptions p r c"
  by (auto simp: handleLogsFetch_def after_def Let_def http_Error_def
      split: sum.splits if_splits)

lemma handleLogsFetch_status:
  "query_Get r ''pipelineRun'' \<noteq> [] \<Longrightarrow>
   reply_Status (snd (handleLogsFetch p r ns pod c)) \<in> {None, Some 200, Some 409, Some 424, Some 500}"
  by (auto simp: handleLogsFetch_def after_def Let_def http_Error_def reply_Status_def
      split: sum.splits if_splits)

text \<open>
  Claim C10.  An authorized bounded log fetch is never answered 400 on account of
  \<open>tailLines\<close> or \<open>sinceSeconds\<close>; and in the log request it sends to the worker cluster,
  \<open>TailLines\<close> is the configured default whenever \<open>tailLines\<close> does not parse as an
  integer, and no since-time is set whenever \<open>sinceSeconds\<close> is absent, does not parse, or
  parses to a value that is not strictly positive.
\<close>

theorem logs_fetch_ignores_malformed_parameters:
  assumes "authorized_subresource_request p r ns name LogsFetch"
  shows "reply_Status (snd (handleNamespaceRequest p r)) \<noteq> Some 400
     \<and> (\<forall>workerConfig ns' pod opts.
          WorkerCall (GetLogs workerConfig ns' pod opts)
            \<in> set (fst (handleNamespaceRequest p r)) \<longrightarrow>
            (ParseInt (query_Get r ''tailLines'') = None \<longrightarrow>
               plo_TailLines opts = Some (cfg_DefaultLogTailLines (ps_config p)))
          \<and> (query_Get r ''sinceSeconds'' = []
               \<or> ParseInt (query_Get r ''sinceSeconds'') = None
               \<or> (\<exists>s. ParseInt (query_Get r ''sinceSeconds'') = Some s \<and> s \<le> 0) \<longrightarrow>
               plo_SinceTime opts = None))"
proof -
  from assms have q: "query_Get r ''pipelineRun'' \<noteq> []"
    by (simp add: authorized_subresource_request_def)
  have route: "handleNamespaceRequest p r =
      after [CheckAccess (podLogsAttributes ns (query_Get r ''pod'')) None]
        (handleLogsFetch p r ns (query_Get r ''pod'') (query_Get r ''container''))"
    using route_subresource [OF assms] by simp
  have st: "reply_Status (snd (handleNamespaceRequest p r)) \<noteq> Some 400"
    using handleLogsFetch_status [OF q, of p ns "query_Get r ''pod''" "query_Get r ''container''"]
    by (auto simp: route after_simps)
  have opts: "opts = fetch_logOptions p r (query_Get r ''container'')"
    if "WorkerCall (GetLogs workerConfig ns' pod opts) \<in> set (fst (handleNamespaceRequest p r))"
    for workerConfig ns' pod opts
    using that handleLogsFetch_call by (auto simp: route after_simps)
  show ?thesis
    using st opts fetch_logOptions_tail fetch_logOptions_since by blast
qed

theorem logs_fetch_ignores_malformed_parameters_witness:
  "authorized_subresource_request example_server req_logs_malformed ''default'' ''pr2'' LogsFetch
   \<and> query_Get req_logs_malformed ''tailLines'' = ''abc'' \<and> ParseInt ''abc'' = None
   \<and> query_Get req_logs_malformed ''sinceSeconds'' = ''-5'' \<and> ParseInt ''-5'' = Some (- 5)
   \<and> reply_Status (snd (handleNamespaceRequest example_server req_logs_malformed)) \<noteq> Some 400
   \<and> (\<exists>workerConfig ns' pod opts.
         WorkerCall (GetLogs workerConfig ns' pod opts)
           \<in> set (fst (handleNamespaceRequest example_server req_logs_malformed))
         \<and> plo_TailLines opts = Some 100 \<and> plo_SinceTime opts = None)"
proof -
  have a: "authorized_subresource_request example_server req_logs_malformed ''default'' ''pr2''
      LogsFetch"
    by (simp add: authorized_subresource_request_def api_path_def req_logs_malformed_def
        example_defs handler_defs)
  have q: "query_Get req_logs_malformed ''tailLines'' = ''abc''"
      "query_Get req_logs_malformed ''sinceSeconds'' = ''-5''"
    by (simp_all add: query_Get_def req_logs_malformed_def)
  have pi: "ParseInt ''abc'' = None" "ParseInt ''-5'' = Some (- 5)"
    by (simp_all add: ParseInt_def digit_value_def)
  have d: "cfg_DefaultLogTailLines (ps_config example_server) = 100"
    by (simp add: example_server_def example_config_def)
  have call: "WorkerCall (GetLogs c1_config ''default'' ''pod-1''
        (fetch_logOptions example_server req_logs_malformed ''step-echo''))
      \<in> set (fst (handleNamespaceRequest example_server req_logs_malformed))"
    by (simp add: req_logs_malformed_def example_defs handler_defs)
  note t = logs_fetch_ignores_malformed_parameters [OF a]
  from t have st: "reply_Status (snd (handleNamespaceRequest example_server
      req_logs_malformed)) \<noteq> Some 400" by blast
  have since: "\<exists>s. ParseInt (query_Get req_logs_malformed ''sinceSeconds'') = Some s \<and> s \<le> 0"
    using q pi by simp
  have tail: "ParseInt (query_Get req_logs_malformed ''tailLines'') = None"
    using q pi by simp
  from t call since tail
  have "plo_TailLines (fetch_logOptions example_server req_logs_malformed ''step-echo'')
        = Some (cfg_DefaultLogTailLines (ps_config example_server))
      \<and> plo_SinceTime (fetch_logOptions example_server req_logs_malformed ''step-echo'') = None"
    by blast
  then have "plo_TailLines (fetch_logOptions example_server req_logs_malformed ''step-echo'')
        = Some 100
      \<and> plo_SinceTime (fetch_logOptions example_server req_logs_malformed ''step-echo'') = None"
    by (simp add: d)
  with call have ex: "\<exists>workerConfig ns' pod opts.
         WorkerCall (GetLogs workerConfig ns' pod opts)
           \<in> set (fst (handleNamespaceRequest example_server req_logs_malformed))
         \<and> plo_TailLines opts = Some 100 \<and> plo_SinceTime opts = None" by blast
  show ?thesis
    using a q pi st ex by simp
qed

section \<open>A worker cluster that fails the call\<close>

text \<open>No request causes more than one call to a worker cluster, and a failed call is
  answered 500 on each of the five sub-resource endpoints.\<close>

lemma handlers_one_worker_call:
  "filter is_WorkerCall (fst (handleResolve p r ns name)) = []"
  "length (filter is_WorkerCall (fst (handleTaskRuns p r ns name))) \<le> Suc 0"
  "length (filter is_WorkerCall (fst (handlePipelineRunPods p r ns name))) \<le> Suc 0"
  "length (filter is_WorkerCall (fst (handlePodStatus p r ns pod))) \<le> Suc 0"
  "length (filter is_WorkerCall (fst (handleLogsFetch p r ns pod c))) \<le> Suc 0"
  "length (filter is_WorkerCall (fst (handleLogsStream p r ns pod c))) \<le> Suc 0"
  by (auto simp: handleResolve_def handleTaskRuns_def handlePipelineRunPods_def
      handlePodStatus_def handleLogsFetch_def handleLogsStream_def after_def Let_def
      split: sum.splits)

lemma filter_after_check:
  "filter is_WorkerCall (fst (after [CheckAccess attrs verdict] res))
     = filter is_WorkerCall (fst res)"
  by (simp add: after_def)

lemma subrouters_one_worker_call:
  "length (filter is_WorkerCall (fst (handlePipelineRunRequest p r ns rp))) \<le> Suc 0"
  "length (filter is_WorkerCall (fst (handlePodRequest p r ns rp))) \<le> Suc 0"
  "length (filter is_WorkerCall (fst (handleLogsRequest p r ns rp))) \<le> Suc 0"
  unfolding handlePipelineRunRequest_def handlePodRequest_def handleLogsRequest_def Let_def
  by (simp_all add: filter_after_check handlers_one_worker_call split: option.splits)

lemma at_most_one_worker_call:
  "length (filter is_WorkerCall (fst (handleNamespaceRequest p r))) \<le> 1"
  unfolding handleNamespaceRequest_parts
  by (simp add: subrouters_one_worker_call)

lemma downstream_failure_is_500:
  assumes "authorized_subresource_request p r ns name sub"
      and "ResolveWorkerCluster (w_listWorkloads (ps_world p)) ns name = Inr wc"
      and "wc_State wc = ''Admitted''"
      and "ps_configs p (wc_Name wc) = Some workerConfig"
      and "w_newForConfigOrDie (ps_world p) workerConfig"
      and "case sub of
             TaskRuns \<Rightarrow> w_listTaskRuns (ps_world p) workerConfig ns
                           (''tekton.dev/pipelineRun='' @ name) = Inl e
           | Pods \<Rightarrow> w_listPods (ps_world p) workerConfig ns
                           (''tekton.dev/pipelineRun='' @ name) = Inl e
           | PodStatus pod \<Rightarrow> w_getPod (ps_world p) workerConfig ns pod = Inl e
           | LogsFetch \<Rightarrow> w_streamLogs (ps_world p) workerConfig ns (query_Get r ''pod'')
                           (fetch_logOptions p r (query_Get r ''container'')) = Inl e
           | LogsStream \<Rightarrow> w_streamLogs (ps_world p) workerConfig ns (query_Get r ''pod'')
                           \<lparr>plo_Container = query_Get r ''container'', plo_Follow = True,
                            plo_TailLines = None, plo_SinceTime = None\<rparr> = Inl e"
  shows "reply_Status (snd (handleNamespaceRequest p r)) = Some 500
       \<and> length (filter is_WorkerCall (fst (handleNamespaceRequest p r))) = 1"
proof (cases sub)
  case TaskRuns
  show ?thesis
    using route_subresource [OF assms(1)] assms(2-) TaskRuns
    by (simp add: after_def handleTaskRuns_def GetConfig_def Let_def http_Error_def
        reply_Status_def)
next
  case Pods
  show ?thesis
    using route_subresource [OF assms(1)] assms(2-) Pods
    by (simp add: after_def handlePipelineRunPods_def GetConfig_def Let_def http_Error_def
        reply_Status_def)
next
  case (PodStatus pod)
  with assms(1) have q: "query_Get r ''pipelineRun'' = name" "name \<noteq> []"
    by (simp_all add: authorized_subresource_request_def)
  show ?thesis
    using route_subresource [OF assms(1)] assms(2-) PodStatus q
    by (simp add: after_def handlePodStatus_def GetConfig_def Let_def http_Error_def
        reply_Status_def)
next
  case LogsFetch
  with assms(1) have q: "query_Get r ''pipelineRun'' = name" "name \<noteq> []"
    by (simp_all add: authorized_subresource_request_def)
  show ?thesis
    using route_subresource [OF assms(1)] assms(2-) LogsFetch q
    by (simp add: after_def handleLogsFetch_def GetConfig_def Let_def http_Error_def
        reply_Status_def)
next
  case LogsStream
  with assms(1) have q: "query_Get r ''pipelineRun'' = name" "name \<noteq> []"
    by (simp_all add: authorized_subresource_request_def)
  show ?thesis
    using route_subresource [OF assms(1)] assms(2-) LogsStream q
    by (simp add: after_def handleLogsStream_def GetConfig_def Let_def http_Error_def
        reply_Status_def)
qed

text \<open>
  Claim C5, evaluated where the code departs from it.  An authorized TaskRuns request
  for the admitted PipelineRun \<open>pr2\<close>, while worker \<open>c1\<close> refuses the list call: the
  proxy sends exactly one request to the worker, and answers with status 500 (not 502 or
  504).
\<close>

theorem worker_failure_is_status_500:
  "handleNamespaceRequest failing_worker_server (req_taskruns ''pr2'') =
     ([CheckAccess (pipelineRunAttributes ''default'' ''pr2'') None,
       ResolverLookup ''default'' ''pr2'',
       WorkerCall (ListTaskRuns c1_config ''default'' ''tekton.dev/pipelineRun=pr2'')],
      http_Error ''Failed to list TaskRuns: connection refused'' 500)
   \<and> reply_Status (snd (handleNamespaceRequest failing_worker_server (req_taskruns ''pr2'')))
       = Some 500
   \<and> length (filter is_WorkerCall
        (fst (handleNamespaceRequest failing_worker_server (req_taskruns ''pr2'')))) = 1"
  by (simp add: req_taskruns_def example_defs handler_defs)

section \<open>The worker-cluster header of a log stream\<close>

text \<open>The four unary endpoints name the resolved cluster in \<open>X-Worker-Cluster\<close> on
  every 200 reply; the reply of a log stream is the upgrader's handshake and nothing
  else.\<close>

lemma unary_success_carries_worker_header:
  assumes "authorized_subresource_request p r ns name sub" and "sub \<noteq> LogsStream"
      and "ResolveWorkerCluster (w_listWorkloads (ps_world p)) ns name = Inr wc"
      and "reply_Status (snd (handleNamespaceRequest p r)) = Some 200"
  shows "reply_Header (snd (handleNamespaceRequest p r)) ''X-Worker-Cluster''
           = Some (wc_Name wc)"
proof (cases sub)
  case TaskRuns
  show ?thesis
    using route_subresource [OF assms(1)] assms(3,4) TaskRuns
    by (auto simp: after_def handleTaskRuns_def reply_Status_def reply_Header_def http_Error_def
        Let_def split: sum.splits if_splits)
next
  case Pods
  show ?thesis
    using route_subresource [OF assms(1)] assms(3,4) Pods
    by (auto simp: after_def handlePipelineRunPods_def reply_Status_def reply_Header_def
        http_Error_def Let_def split: sum.splits if_splits)
next
  case (PodStatus pod)
  with assms(1) have q: "query_Get r ''pipelineRun'' = name" "name \<noteq> []"
    by (simp_all add: authorized_subresource_request_def)
  show ?thesis
    using route_subresource [OF assms(1)] assms(3,4) PodStatus q
    by (auto simp: after_def handlePodStatus_def reply_Status_def reply_Header_def
        http_Error_def Let_def split: sum.splits if_splits)
next
  case LogsFetch
  with assms(1) have q: "query_Get r ''pipelineRun'' = name" "name \<noteq> []"
    by (simp_all add: authorized_subresource_request_def)
  show ?thesis
    using route_subresource [OF assms(1)] assms(3,4) LogsFetch q
    by (auto simp: after_def handleLogsFetch_def reply_Status_def reply_Header_def
        http_Error_def Let_def split: sum.splits if_splits)
next
  case LogsStream
  with assms(2) show ?thesis by simp
qed

lemma log_stream_reply:
  assumes "authorized_subresource_request p r ns name LogsStream"
      and "ResolveWorkerCluster (w_listWorkloads (ps_world p)) ns name = Inr wc"
      and "wc_State wc = ''Admitted''"
      and "ps_configs p (wc_Name wc) = Some workerConfig"
      and "w_newForConfigOrDie (ps_world p) workerConfig"
      and "w_streamLogs (ps_world p) workerConfig ns (query_Get r ''pod'')
             \<lparr>plo_Container = query_Get r ''container'', plo_Follow = True,
              plo_TailLines = None, plo_SinceTime = None\<rparr> = Inr logs"
      and "w_upgrade (ps_world p) r = Inr conn"
  shows "snd (handleNamespaceRequest p r) =
     Reply \<lparr>resp_Status = 101, resp_Header = ws_HandshakeHeader conn,
            resp_Body = Frames (relayLoop (ls_Chunks logs) (ws_WritesBeforeFailure conn))\<rparr>"
proof -
  from assms(1) have q: "query_Get r ''pipelineRun'' = name" "name \<noteq> []"
    by (simp_all add: authorized_subresource_request_def)
  show ?thesis
    using route_subresource [OF assms(1)] assms(2-) q
    by (simp add: after_def handleLogsStream_def GetConfig_def Let_def)
qed

text \<open>
  Claim C6, evaluated where the code departs from it.  An authorized log-stream request
  for the admitted PipelineRun \<open>pr2\<close>, served by worker \<open>c1\<close>: the proxy opens the log
  stream on the worker and upgrades the connection (status 101, the two chunks relayed as
  frames), and the response has no \<open>X-Worker-Cluster\<close> header.
\<close>

theorem log_stream_lacks_worker_header:
  "fst (handleNamespaceRequest example_server req_logs_stream) =
     [CheckAccess (podLogsAttributes ''default'' ''pod-1'') None,
      ResolverLookup ''default'' ''pr2'',
      WorkerCall (GetLogs c1_config ''default'' ''pod-1''
        \<lparr>plo_Container = ''step-echo'', plo_Follow = True, plo_TailLines = None,
         plo_SinceTime = None\<rparr>)]
   \<and> reply_Status (snd (handleNamespaceRequest example_server req_logs_stream)) = Some 101
   \<and> reply_Body (snd (handleNamespaceRequest example_server req_logs_stream)) =
       Some (Frames [''Hello '', ''World''])
   \<and> reply_Header (snd (handleNamespaceRequest example_server req_logs_stream))
        ''X-Worker-Cluster'' = None"
  by (simp add: req_logs_stream_def example_defs handler_defs)

section \<open>Authorization comes first\<close>

lemma handlers_make_no_check:
  "list_all (\<lambda>ev. \<not> is_CheckAccess ev) (fst (handleResolve p r ns name))"
  "list_all (\<lambda>ev. \<not> is_CheckAccess ev) (fst (handleTaskRuns p r ns name))"
  "list_all (\<lambda>ev. \<not> is_CheckAccess ev) (fst (handlePipelineRunPods p r ns name))"
  "list_all (\<lambda>ev. \<not> is_CheckAccess ev) (fst (handlePodStatus p r ns pod))"
  "list_all (\<lambda>ev. \<not> is_CheckAccess ev) (fst (handleLogsFetch p r ns pod c))"
  "list_all (\<lambda>ev. \<not> is_CheckAccess ev) (fst (handleLogsStream p r ns pod c))"
  by (auto simp: handleResolve_def handleTaskRuns_def handlePipelineRunPods_def
      handlePodStatus_def handleLogsFetch_def handleLogsStream_def after_def Let_def
      split: sum.splits)

lemma checked_first_after:
  "list_all (\<lambda>ev. \<not> is_CheckAccess ev) (fst res) \<Longrightarrow>
   checked_first (after [CheckAccess attrs None] res)"
  by (cases res) (simp add: after_def)

lemma checked_first_denied:
  "checked_first (after [CheckAccess attrs (Some e)] ([], http_Error msg 403))"
  by (simp add: after_def http_Error_def reply_Status_def)

lemma checked_first_none: "checked_first ([], rep)"
  by simp

lemma handlePipelineRunRequest_checked: "checked_first (handlePipelineRunRequest p r ns rp)"
  unfolding handlePipelineRunRequest_def Let_def
  by (auto simp del: checked_first.simps split: option.splits
      intro!: checked_first_after checked_first_denied checked_first_none
      simp: handlers_make_no_check)

lemma handlePodRequest_checked: "checked_first (handlePodRequest p r ns rp)"
  unfolding handlePodRequest_def Let_def
  by (auto simp del: checked_first.simps split: option.splits
      intro!: checked_first_after checked_first_denied checked_first_none
      simp: handlers_make_no_check)

lemma handleLogsRequest_checked: "checked_first (handleLogsRequest p r ns rp)"
  unfolding handleLogsRequest_def Let_def
  by (auto simp del: checked_first.simps split: option.splits
      intro!: checked_first_after checked_first_denied checked_first_none
      simp: handlers_make_no_check)

lemma handleNamespaceRequest_checked: "checked_first (handleNamespaceRequest p r)"
  unfolding handleNamespaceRequest_parts
  by (simp add: handlePipelineRunRequest_checked handlePodRequest_checked
      handleLogsRequest_checked del: checked_first.simps)
     simp

lemma checked_first_precedes:
  assumes "checked_first (evs, rep)" and "i < length evs" and "\<not> is_CheckAccess (evs ! i)"
  shows "\<exists>j < i. \<exists>attrs. evs ! j = CheckAccess attrs None"
proof (cases evs)
  case Nil
  with assms show ?thesis by simp
next
  case (Cons ev rest)
  show ?thesis
  proof (cases ev)
    case (CheckAccess attrs verdict)
    show ?thesis
    proof (cases verdict)
      case None
      with assms Cons CheckAccess have "i \<noteq> 0" by (cases i) auto
      with Cons CheckAccess None show ?thesis by (intro exI [of _ 0]) auto
    next
      case (Some e)
      with assms Cons CheckAccess show ?thesis by (cases i) auto
    qed
  next
    case (ResolverLookup a b)
    with assms Cons show ?thesis by simp
  next
    case (WorkerCall c)
    with assms Cons show ?thesis by simp
  qed
qed

lemma checked_first_denied_only:
  assumes "checked_first (evs, rep)" and "CheckAccess attrs (Some e) \<in> set evs"
  shows "reply_Status rep = Some 403 \<and> (\<forall>ev \<in> set evs. is_CheckAccess ev)"
proof (cases evs)
  case Nil
  with assms show ?thesis by simp
next
  case (Cons ev rest)
  show ?thesis
  proof (cases ev)
    case (CheckAccess attrs' verdict)
    show ?thesis
    proof (cases verdict)
      case None
      with assms Cons CheckAccess show ?thesis by (auto simp: list_all_iff)
    next
      case (Some e')
      with assms Cons CheckAccess show ?thesis by auto
    qed
  next
    case (ResolverLookup a b)
    with assms Cons show ?thesis by simp
  next
    case (WorkerCall c)
    with assms Cons show ?thesis by simp
  qed
qed

lemma no_credential_token: "no_credential r \<Longrightarrow> extractBearerToken r = []"
  by (auto simp: no_credential_def extractBearerToken_def header_Get_def SplitN2_def Let_def
      bearer_credential_form_def dropWhile_eq_Nil_conv)


lemma no_token_denied:
  assumes "extractBearerToken r = []"
  shows "CheckPipelineRunAccess w r ns n = Some ''no authorization token provided''"
    and "CheckPodAccess w r ns n = Some ''no authorization token provided''"
    and "CheckPodLogsAccess w r ns n = Some ''no authorization token provided''"
  using assms
  by (simp_all add: CheckPipelineRunAccess_def CheckPodAccess_def CheckPodLogsAccess_def)

lemma HasPrefix_sep_length:
  assumes "HasPrefix rp pre" and "CHR ''/'' \<in> set pre"
  shows "\<not> length (Split rp CHR ''/'') < 2"
  using Split_length_sep [of "CHR ''/''" rp] HasPrefix_set [OF assms(1)] assms(2) by auto

lemma no_token_pipelinerun:
  assumes "extractBearerToken r = []" and "HasPrefix rp ''pipelineruns/''"
  shows "\<exists>attrs. handlePipelineRunRequest p r ns rp =
     ([CheckAccess attrs (Some ''no authorization token provided'')],
      http_Error ''Access denied: no authorization token provided'' 403)"
  using HasPrefix_sep_length [OF assms(2)] no_token_denied(1) [OF assms(1)]
  by (simp add: handlePipelineRunRequest_def Let_def after_def)

lemma no_token_pod:
  assumes "extractBearerToken r = []" and "HasPrefix rp ''pods/''"
  shows "\<exists>attrs. handlePodRequest p r ns rp =
     ([CheckAccess attrs (Some ''no authorization token provided'')],
      http_Error ''Access denied: no authorization token provided'' 403)"
  using HasPrefix_sep_length [OF assms(2)] no_token_denied(2) [OF assms(1)]
  by (simp add: handlePodRequest_def Let_def after_def)

lemma no_token_logs:
  assumes "extractBearerToken r = []"
  shows "handleLogsRequest p r ns rp =
     (if query_Get r ''pod'' = [] then ([], http_Error ''Pod name is required'' 400)
      else ([CheckAccess (podLogsAttributes ns (query_Get r ''pod''))
               (Some ''no authorization token provided'')],
            http_Error ''Access denied: no authorization token provided'' 403))"
  using no_token_denied(3) [OF assms]
  by (simp add: handleLogsRequest_def Let_def after_def)

lemma no_token_trace:
  assumes "extractBearerToken r = []"
  shows "\<forall>ev \<in> set (fst (handleNamespaceRequest p r)). is_CheckAccess ev"
proof -
  have "checked_first (handleNamespaceRequest p r)"
    by (rule handleNamespaceRequest_checked)
  moreover have "\<not> (\<exists>attrs rest. fst (handleNamespaceRequest p r) = CheckAccess attrs None # rest)"
    unfolding handleNamespaceRequest_parts
    using no_token_denied [OF assms]
    by (auto simp: handlePipelineRunRequest_def handlePodRequest_def handleLogsRequest_def
        Let_def after_def)
  ultimately show ?thesis
    by (cases "handleNamespaceRequest p r" rule: checked_first.cases) auto
qed

text \<open>
  Claim C2, as the code has it.  For every request to the namespace router: (1) any
  resolver lookup or worker-cluster call in its trace is preceded by an authorization
  check, on the caller's own bearer token, that granted access; (2) if an authorization
  check fails, the reply is 403 and the trace holds no resolver lookup and no worker
  call; (3) a request whose Authorization header is absent, empty, or not a two-part
  value whose first part is \<open>bearer\<close> in any case is treated as carrying no credential: it
  causes no resolver lookup and no worker call, and it is answered 403 on every
  pipelinerun path, every pod path, and every logs path whose \<open>pod\<close> query parameter is
  not empty.
\<close>

theorem authorization_precedes_resolution:
  "(\<forall>i < length (fst (handleNamespaceRequest p r)).
       is_ResolverLookup (fst (handleNamespaceRequest p r) ! i)
       \<or> is_WorkerCall (fst (handleNamespaceRequest p r) ! i) \<longrightarrow>
       (\<exists>j < i. \<exists>attrs. fst (handleNamespaceRequest p r) ! j = CheckAccess attrs None))
   \<and> (\<forall>attrs e. CheckAccess attrs (Some e) \<in> set (fst (handleNamespaceRequest p r)) \<longrightarrow>
        reply_Status (snd (handleNamespaceRequest p r)) = Some 403
        \<and> (\<forall>ev \<in> set (fst (handleNamespaceRequest p r)).
              \<not> is_ResolverLookup ev \<and> \<not> is_WorkerCall ev))
   \<and> (no_credential r \<longrightarrow>
        (\<forall>ev \<in> set (fst (handleNamespaceRequest p r)).
              \<not> is_ResolverLookup ev \<and> \<not> is_WorkerCall ev)
        \<and> (2 \<le> length (namespacePathParts r)
             \<and> (HasPrefix (resourcePathOf r) ''pipelineruns/''
                 \<or> HasPrefix (resourcePathOf r) ''pods/''
                 \<or> (HasPrefix (resourcePathOf r) ''logs'' \<and> query_Get r ''pod'' \<noteq> [])) \<longrightarrow>
             reply_Status (snd (handleNamespaceRequest p r)) = Some 403))"
proof -
  let ?evs = "fst (handleNamespaceRequest p r)"
  let ?rep = "snd (handleNamespaceRequest p r)"
  have shape: "checked_first (?evs, ?rep)"
    using handleNamespaceRequest_checked [of p r] by simp
  have not_check: "\<not> is_ResolverLookup ev \<and> \<not> is_WorkerCall ev" if "is_CheckAccess ev" for ev
    using that by (cases ev) simp_all
  have before: "\<exists>j < i. \<exists>attrs. ?evs ! j = CheckAccess attrs None"
    if "i < length ?evs" and "is_ResolverLookup (?evs ! i) \<or> is_WorkerCall (?evs ! i)" for i
  proof -
    from that(2) have "\<not> is_CheckAccess (?evs ! i)"
      by (cases "?evs ! i") auto
    with checked_first_precedes [OF shape that(1)] show ?thesis by simp
  qed
  have denied: "reply_Status ?rep = Some 403
      \<and> (\<forall>ev \<in> set ?evs. \<not> is_ResolverLookup ev \<and> \<not> is_WorkerCall ev)"
    if "CheckAccess attrs (Some e) \<in> set ?evs" for attrs e
    using checked_first_denied_only [OF shape that] not_check by blast
  have silent: "\<forall>ev \<in> set ?evs. \<not> is_ResolverLookup ev \<and> \<not> is_WorkerCall ev"
    if "no_credential r"
    using no_token_trace [OF no_credential_token [OF that], of p] not_check by blast
  have rejected: "reply_Status ?rep = Some 403"
    if nc: "no_credential r"
      and routed: "2 \<le> length (namespacePathParts r)
             \<and> (HasPrefix (resourcePathOf r) ''pipelineruns/''
                 \<or> HasPrefix (resourcePathOf r) ''pods/''
                 \<or> (HasPrefix (resourcePathOf r) ''logs'' \<and> query_Get r ''pod'' \<noteq> []))"
  proof -
    note tok = no_credential_token [OF nc]
    from routed have len: "\<not> length (namespacePathParts r) < 2" by simp
    show ?thesis
    proof (cases "HasPrefix (resourcePathOf r) ''pipelineruns/''")
      case True
      with no_token_pipelinerun [OF tok True, of p "namespacePathParts r ! 0"] len
      show ?thesis
        unfolding handleNamespaceRequest_parts
        by (auto simp: http_Error_def reply_Status_def)
    next
      case notpr: False
      show ?thesis
      proof (cases "HasPrefix (resourcePathOf r) ''pods/''")
        case True
        with no_token_pod [OF tok True, of p "namespacePathParts r ! 0"] len notpr
        show ?thesis
          unfolding handleNamespaceRequest_parts
          by (auto simp: http_Error_def reply_Status_def)
      next
        case False
        with routed notpr have "HasPrefix (resourcePathOf r) ''logs''"
          and "query_Get r ''pod'' \<noteq> []" by auto
        with no_token_logs [OF tok, of p "namespacePathParts r ! 0" "resourcePathOf r"]
          len notpr False
        show ?thesis
          unfolding handleNamespaceRequest_parts
          by (auto simp: http_Error_def reply_Status_def)
      qed
    qed
  qed
  show ?thesis
    using before denied silent rejected by blast
qed

text \<open>Where the claim as written fails: a logs request that names no pod and carries no
  credential is answered 400, not 403.\<close>

theorem logs_without_pod_rejected_400:
  "no_credential req_logs_no_pod
   \<and> 2 \<le> length (namespacePathParts req_logs_no_pod)
   \<and> HasPrefix (resourcePathOf req_logs_no_pod) ''logs''
   \<and> handleNamespaceRequest example_server req_logs_no_pod =
       ([], http_Error ''Pod name is required'' 400)
   \<and> reply_Status (snd (handleNamespaceRequest example_server req_logs_no_pod)) \<noteq> Some 403"
  by (simp add: no_credential_def req_logs_no_pod_def namespacePathParts_def
      resourcePathOf_def example_defs handler_defs)

theorem authorization_precedes_resolution_witness:
  "no_credential req_basic_auth
   \<and> 2 \<le> length (namespacePathParts req_basic_auth)
   \<and> HasPrefix (resourcePathOf req_basic_auth) ''pipelineruns/''
   \<and> reply_Status (snd (handleNamespaceRequest example_server req_basic_auth)) = Some 403
   \<and> list_all (\<lambda>ev. \<not> is_ResolverLookup ev \<and> \<not> is_WorkerCall ev)
        (fst (handleNamespaceRequest example_server req_basic_auth))
   \<and> CheckAccess (pipelineRunAttributes ''default'' ''pr2'')
        (Some ''failed to create SelfSubjectAccessReview: Unauthorized'')
        \<in> set (fst (handleNamespaceRequest example_server req_bad_token))
   \<and> reply_Status (snd (handleNamespaceRequest example_server req_bad_token)) = Some 403
   \<and> list_all (\<lambda>ev. \<not> is_ResolverLookup ev \<and> \<not> is_WorkerCall ev)
        (fst (handleNamespaceRequest example_server req_bad_token))
   \<and> is_WorkerCall (fst (handleNamespaceRequest example_server (req_taskruns ''pr2'')) ! 2)
   \<and> (\<exists>j < 2. \<exists>attrs.
         fst (handleNamespaceRequest example_server (req_taskruns ''pr2'')) ! j =
           CheckAccess attrs None)"
proof -
  have nc: "no_credential req_basic_auth"
    by (simp add: no_credential_def bearer_credential_form_def req_basic_auth_def
        req_resolve_def header_Get_def ToLower_def toLower_char_def)
  have routed: "2 \<le> length (namespacePathParts req_basic_auth)
      \<and> HasPrefix (resourcePathOf req_basic_auth) ''pipelineruns/''"
    by (simp add: req_basic_auth_def req_resolve_def namespacePathParts_def resourcePathOf_def
        HasPrefix_def TrimPrefix_def)
  have bad: "CheckAccess (pipelineRunAttributes ''default'' ''pr2'')
        (Some ''failed to create SelfSubjectAccessReview: Unauthorized'')
        \<in> set (fst (handleNamespaceRequest example_server req_bad_token))"
    by (simp add: req_bad_token_def req_resolve_def example_defs handler_defs)
  have call: "2 < length (fst (handleNamespaceRequest example_server (req_taskruns ''pr2'')))
      \<and> is_WorkerCall (fst (handleNamespaceRequest example_server (req_taskruns ''pr2'')) ! 2)"
    by (simp add: req_taskruns_def example_defs handler_defs)
  note t1 = authorization_precedes_resolution [of example_server req_basic_auth]
  note t2 = authorization_precedes_resolution [of example_server req_bad_token]
  note t3 = authorization_precedes_resolution [of example_server "req_taskruns ''pr2''"]
  have r1: "reply_Status (snd (handleNamespaceRequest example_server req_basic_auth)) = Some 403
      \<and> (\<forall>ev \<in> set (fst (handleNamespaceRequest example_server req_basic_auth)).
            \<not> is_ResolverLookup ev \<and> \<not> is_WorkerCall ev)"
    using t1 nc routed by blast
  have r2: "reply_Status (snd (handleNamespaceRequest example_server req_bad_token)) = Some 403
      \<and> (\<forall>ev \<in> set (fst (handleNamespaceRequest example_server req_bad_token)).
            \<not> is_ResolverLookup ev \<and> \<not> is_WorkerCall ev)"
    using t2 bad by blast
  have r3: "\<exists>j < 2. \<exists>attrs.
         fst (handleNamespaceRequest example_server (req_taskruns ''pr2'')) ! j =
           CheckAccess attrs None"
    using t3 call by blast
  show ?thesis using nc routed bad call r1 r2 r3 by (simp add: list_all_iff)
qed

section \<open>Repeated resolution\<close>

text \<open>
  Claim C9.  Two \<open>/resolve\<close> calls for the same namespace and PipelineRun, each by an
  authorized caller, answered while the namespace's workload list is the same, produce the
  same reply (status, headers and body): whatever else differs between the two moments
  (the registry's cache, the caller's token, other namespaces) has no influence.
\<close>

theorem resolve_reply_deterministic:
  assumes "authorized_resolve_request p1 r1 ns name"
      and "authorized_resolve_request p2 r2 ns name"
      and "w_listWorkloads (ps_world p1) ns = w_listWorkloads (ps_world p2) ns"
  shows "snd (handleNamespaceRequest p1 r1) = snd (handleNamespaceRequest p2 r2)"
  unfolding route_resolve [OF assms(1)] route_resolve [OF assms(2)] after_simps
    handleResolve_def
    Resolve_cong [of "w_listWorkloads (ps_world p1)" ns "w_listWorkloads (ps_world p2)" name,
      OF assms(3)]
  by simp


theorem resolve_reply_deterministic_witness:
  "authorized_resolve_request example_server (req_resolve ''pr2'') ''default'' ''pr2''
   \<and> authorized_resolve_request later_server (later_req_resolve ''pr2'') ''default'' ''pr2''
   \<and> w_listWorkloads (ps_world example_server) ''default'' =
       w_listWorkloads (ps_world later_server) ''default''
   \<and> snd (handleNamespaceRequest example_server (req_resolve ''pr2'')) =
       snd (handleNamespaceRequest later_server (later_req_resolve ''pr2''))"
proof -
  have a1: "authorized_resolve_request example_server (req_resolve ''pr2'') ''default'' ''pr2''"
    by (simp add: authorized_resolve_request_def api_path_def req_resolve_def example_defs
        handler_defs)
  have a2: "authorized_resolve_request later_server (later_req_resolve ''pr2'') ''default''
      ''pr2''"
    by (simp add: authorized_resolve_request_def api_path_def req_resolve_def
        later_req_resolve_def later_server_def example_defs handler_defs)
  have same: "w_listWorkloads (ps_world example_server) ''default'' =
       w_listWorkloads (ps_world later_server) ''default''"
    by (simp add: later_server_def)
  show ?thesis
    using a1 a2 same resolve_reply_deterministic [OF a1 a2 same] by simp
qed

section \<open>The registry: resynchronisation\<close>

lemma loadLoop_append:
  "loadLoop w ns (xs @ ys) cfgs = loadLoop w ns ys (loadLoop w ns xs cfgs)"
  by (induction xs arbitrary: cfgs) (auto split: sum.splits)

lemma loadLoop_changes:
  "loadLoop w ns items cfgs k = cfgs k
   \<or> (\<exists>cluster \<in> set items. \<exists>config. mkc_Name cluster = k
         \<and> loadCluster w ns cluster = Inr config \<and> loadLoop w ns items cfgs k = Some config)"
proof (induction items arbitrary: cfgs)
  case Nil
  then show ?case by simp
next
  case (Cons c items)
  show ?case
  proof (cases "loadCluster w ns c")
    case (Inl warning)
    then show ?thesis using Cons [of cfgs] by auto
  next
    case (Inr config)
    let ?cfgs' = "cfgs(mkc_Name c \<mapsto> config)"
    have step: "loadLoop w ns (c # items) cfgs = loadLoop w ns items ?cfgs'"
      using Inr by simp
    from Cons [of ?cfgs'] show ?thesis
    proof
      assume same: "loadLoop w ns items ?cfgs' k = ?cfgs' k"
      show ?thesis
      proof (cases "k = mkc_Name c")
        case True
        with same Inr have "mkc_Name c = k \<and> loadCluster w ns c = Inr config
            \<and> loadLoop w ns (c # items) cfgs k = Some config"
          unfolding step by simp
        then show ?thesis by auto
      next
        case False
        with same show ?thesis unfolding step by simp
      qed
    next
      assume "\<exists>cluster \<in> set items. \<exists>config'. mkc_Name cluster = k
         \<and> loadCluster w ns cluster = Inr config'
         \<and> loadLoop w ns items ?cfgs' k = Some config'"
      then show ?thesis unfolding step by auto
    qed
  qed
qed

lemma loadLoop_keeps: "k \<in> dom cfgs \<Longrightarrow> k \<in> dom (loadLoop w ns items cfgs)"
  by (induction items arbitrary: cfgs) (auto split: sum.splits)

lemma loadLoop_stores:
  "cluster \<in> set items \<Longrightarrow> loadCluster w ns cluster = Inr config \<Longrightarrow>
   mkc_Name cluster \<in> dom (loadLoop w ns items cfgs)"
proof (induction items arbitrary: cfgs)
  case Nil
  then show ?case by simp
next
  case (Cons c items)
  show ?case
  proof (cases "c = cluster")
    case True
    then show ?thesis
      using Cons.prems loadLoop_keeps [of "mkc_Name cluster" "cfgs(mkc_Name cluster \<mapsto> config)"]
      by simp
  next
    case False
    then show ?thesis using Cons by (auto split: sum.splits)
  qed
qed

lemma loadCluster_fails:
  assumes "kc_LocationType (mkc_KubeConfig cluster) \<noteq> ''Secret''
       \<or> kc_Location (mkc_KubeConfig cluster) = []
       \<or> (\<exists>e. w_getSecret w ns (kc_Location (mkc_KubeConfig cluster)) = Inl e)
       \<or> (\<exists>secret. w_getSecret w ns (kc_Location (mkc_KubeConfig cluster)) = Inr secret
             \<and> (sec_Data secret ''kubeconfig'' = None
                 \<or> (\<exists>d e. sec_Data secret ''kubeconfig'' = Some d
                       \<and> w_RESTConfigFromKubeConfig w d = Inl e)))"
  shows "\<exists>warning. loadCluster w ns cluster = Inl warning"
  using assms by (auto simp: loadCluster_def Let_def)

text \<open>
  Claim C7.  Let the listed clusters be \<open>before @ cluster # rest\<close>, and let the
  configuration of \<open>cluster\<close> fail to resolve for any of the five reasons: a location
  type other than \<open>Secret\<close>, an empty secret location, a secret that cannot be fetched, a
  secret without the \<open>kubeconfig\<close> key, or a kubeconfig that does not parse.  Then
  \<open>LoadConfigs\<close> returns no error and leaves the cache exactly as a resync over
  \<open>before @ rest\<close> would; every other listed cluster that resolves has an entry afterwards;
  and the entry under the failed cluster's name is left as it was (unless another listed
  cluster has the same name).
\<close>

theorem LoadConfigs_skips_failed_cluster:
  assumes "w_listMultiKueueClusters w = Inr (before @ cluster # rest)"
      and "kc_LocationType (mkc_KubeConfig cluster) \<noteq> ''Secret''
       \<or> kc_Location (mkc_KubeConfig cluster) = []
       \<or> (\<exists>e. w_getSecret w ns (kc_Location (mkc_KubeConfig cluster)) = Inl e)
       \<or> (\<exists>secret. w_getSecret w ns (kc_Location (mkc_KubeConfig cluster)) = Inr secret
             \<and> (sec_Data secret ''kubeconfig'' = None
                 \<or> (\<exists>d e. sec_Data secret ''kubeconfig'' = Some d
                       \<and> w_RESTConfigFromKubeConfig w d = Inl e)))"
  shows "LoadConfigs w ns cfgs = (None, loadLoop w ns (before @ rest) cfgs)
       \<and> (\<forall>other \<in> set (before @ rest). \<forall>config.
            loadCluster w ns other = Inr config \<longrightarrow>
              mkc_Name other \<in> dom (snd (LoadConfigs w ns cfgs)))
       \<and> ((\<forall>other \<in> set (before @ rest). mkc_Name other \<noteq> mkc_Name cluster) \<longrightarrow>
            snd (LoadConfigs w ns cfgs) (mkc_Name cluster) = cfgs (mkc_Name cluster))"
proof -
  from loadCluster_fails [OF assms(2)] obtain warning
    where fails: "loadCluster w ns cluster = Inl warning" by blast
  have eq: "LoadConfigs w ns cfgs = (None, loadLoop w ns (before @ rest) cfgs)"
    using assms(1) fails by (simp add: LoadConfigs_def loadLoop_append)
  have stored: "mkc_Name other \<in> dom (loadLoop w ns (before @ rest) cfgs)"
    if "other \<in> set (before @ rest)" "loadCluster w ns other = Inr config" for other config
    using that by (rule loadLoop_stores)
  have untouched: "loadLoop w ns (before @ rest) cfgs (mkc_Name cluster) = cfgs (mkc_Name cluster)"
    if "\<forall>other \<in> set (before @ rest). mkc_Name other \<noteq> mkc_Name cluster"
    using that loadLoop_changes [of w ns "before @ rest" cfgs "mkc_Name cluster"] by blast
  show ?thesis
    unfolding eq using stored untouched by auto
qed

theorem LoadConfigs_skips_failed_cluster_witness:
  "w_listMultiKueueClusters example_world = Inr ([] @ mkc_c2 # [mkc_c1, mkc_c3])
   \<and> kc_LocationType (mkc_KubeConfig mkc_c2) \<noteq> ''Secret''
   \<and> LoadConfigs example_world ''kueue-system'' Map.empty =
       (None, loadLoop example_world ''kueue-system'' ([] @ [mkc_c1, mkc_c3]) Map.empty)
   \<and> snd (LoadConfigs example_world ''kueue-system'' Map.empty) ''c1'' = Some c1_config
   \<and> snd (LoadConfigs example_world ''kueue-system'' Map.empty) ''c2'' = None
   \<and> w_listMultiKueueClusters example_world = Inr ([mkc_c2, mkc_c1] @ mkc_c3 # [])
   \<and> (\<exists>secret. w_getSecret example_world ''kueue-system'' (kc_Location (mkc_KubeConfig mkc_c3))
          = Inr secret \<and> sec_Data secret ''kubeconfig'' = None)
   \<and> LoadConfigs example_world ''kueue-system'' Map.empty =
       (None, loadLoop example_world ''kueue-system'' ([mkc_c2, mkc_c1] @ []) Map.empty)
   \<and> snd (LoadConfigs example_world ''kueue-system'' Map.empty) ''c3'' = None"
proof -
  have l2: "w_listMultiKueueClusters example_world = Inr ([] @ mkc_c2 # [mkc_c1, mkc_c3])"
    and l3: "w_listMultiKueueClusters example_world = Inr ([mkc_c2, mkc_c1] @ mkc_c3 # [])"
    by (simp_all add: example_world_def)
  have h2: "kc_LocationType (mkc_KubeConfig mkc_c2) \<noteq> ''Secret''"
    by (simp add: mkc_c2_def)
  have s3: "\<exists>secret. w_getSecret example_world ''kueue-system''
      (kc_Location (mkc_KubeConfig mkc_c3)) = Inr secret \<and> sec_Data secret ''kubeconfig'' = None"
    by (simp add: example_world_def example_secrets_def mkc_c3_def)
  have h3: "kc_LocationType (mkc_KubeConfig mkc_c3) \<noteq> ''Secret''
       \<or> kc_Location (mkc_KubeConfig mkc_c3) = []
       \<or> (\<exists>e. w_getSecret example_world ''kueue-system'' (kc_Location (mkc_KubeConfig mkc_c3))
              = Inl e)
       \<or> (\<exists>secret. w_getSecret example_world ''kueue-system''
              (kc_Location (mkc_KubeConfig mkc_c3)) = Inr secret
             \<and> (sec_Data secret ''kubeconfig'' = None
                 \<or> (\<exists>d e. sec_Data secret ''kubeconfig'' = Some d
                       \<and> w_RESTConfigFromKubeConfig example_world d = Inl e)))"
    using s3 by blast
  have ok1: "loadCluster example_world ''kueue-system'' mkc_c1 = Inr c1_config"
    by (simp add: loadCluster_def mkc_c1_def example_world_def example_secrets_def
        example_parse_def)
  have names: "mkc_Name mkc_c1 = ''c1''" "mkc_Name mkc_c2 = ''c2''" "mkc_Name mkc_c3 = ''c3''"
    by (simp_all add: mkc_c1_def mkc_c2_def mkc_c3_def)
  note t2 = LoadConfigs_skips_failed_cluster [of example_world "[]" mkc_c2 "[mkc_c1, mkc_c3]"
      "''kueue-system''" Map.empty, OF l2 disjI1 [OF h2]]
  note t3 = LoadConfigs_skips_failed_cluster [of example_world "[mkc_c2, mkc_c1]" mkc_c3 "[]"
      "''kueue-system''" Map.empty, OF l3 h3]
  note t2_eq = t2 [THEN conjunct1]
  note t2_stored = t2 [THEN conjunct2, THEN conjunct1]
  note t2_untouched = t2 [THEN conjunct2, THEN conjunct2]
  note t3_eq = t3 [THEN conjunct1]
  note t3_untouched = t3 [THEN conjunct2, THEN conjunct2]
  have c2: "snd (LoadConfigs example_world ''kueue-system'' Map.empty) ''c2'' = None"
    using t2_untouched by (simp add: names)
  have c3: "snd (LoadConfigs example_world ''kueue-system'' Map.empty) ''c3'' = None"
    using t3_untouched by (simp add: names)
  have "''c1'' \<in> dom (snd (LoadConfigs example_world ''kueue-system'' Map.empty))"
    using t2_stored ok1 by (simp add: names)
  then have c1: "snd (LoadConfigs example_world ''kueue-system'' Map.empty) ''c1''
      = Some c1_config"
    using loadLoop_changes [of example_world "''kueue-system''" "[mkc_c2, mkc_c1, mkc_c3]"
        Map.empty "''c1''"] ok1
    by (auto simp: LoadConfigs_def example_world_def names)
  show ?thesis
    using l2 l3 h2 s3 t2_eq t3_eq c1 c2 c3 by simp
qed

section \<open>The registry: removal of entries\<close>

lemma handleWatchEvent_keeps:
  assumes "k \<in> dom cfgs" and "k \<notin> dom (handleWatchEvent w ns event cfgs)"
  shows "ev_Type event = ''DELETED''
       \<and> (\<exists>cluster. ev_Object event = ClusterObject cluster \<and> mkc_Name cluster = k)"
  using assms loadLoop_keeps [of k cfgs w ns]
  by (auto simp: handleWatchEvent_def LoadConfigs_def split: if_splits sum.splits watch_object.splits)

lemma watchLoop_keeps:
  assumes "k \<in> dom cfgs" and "k \<notin> dom (watchLoop ns events cfgs)"
  shows "\<exists>(w, event) \<in> set events. ev_Type event = ''DELETED''
       \<and> (\<exists>cluster. ev_Object event = ClusterObject cluster \<and> mkc_Name cluster = k)"
  using assms
proof (induction events arbitrary: cfgs)
  case Nil
  then show ?case by simp
next
  case (Cons we events)
  obtain w event where we: "we = (w, event)" by (cases we)
  show ?case
  proof (cases "k \<in> dom (handleWatchEvent w ns event cfgs)")
    case True
    then show ?thesis using Cons we by auto
  next
    case False
    then show ?thesis using handleWatchEvent_keeps [OF Cons.prems(1) False] we by auto
  qed
qed


lemma loadCluster_clock: "loadCluster (w\<lparr>w_now := t\<rparr>) ns cluster = loadCluster w ns cluster"
  by (simp add: loadCluster_def Let_def split: sum.splits option.splits)

lemma loadLoop_clock: "loadLoop (w\<lparr>w_now := t\<rparr>) ns items cfgs = loadLoop w ns items cfgs"
  by (induction items arbitrary: cfgs) (simp_all add: loadCluster_clock split: sum.splits)

text \<open>
  Claim C8.  (1) A deletion event for a cluster removes the cache entry under that
  cluster's name and changes no other entry.  (2) An entry that is present before a watch
  event and absent after it was removed by a deletion event for its own name; (3) the same
  over any sequence of watch events, and over a whole run of the watch loop (initial load,
  then the events); (4) \<open>LoadConfigs\<close> leaves every key as it was or
  stores the configuration of a listed cluster of that name that resolved, and (5) keeps
  every key that was present.  (6) The clock has no influence on what a watch event does
  to the cache, so nothing expires.
\<close>

theorem cache_entries_removed_only_by_deletion:
  "handleWatchEvent w ns \<lparr>ev_Type = ''DELETED'', ev_Object = ClusterObject cluster\<rparr> cfgs
     = cfgs(mkc_Name cluster := None)
   \<and> (\<forall>k. k \<in> dom cfgs \<and> k \<notin> dom (handleWatchEvent w ns event cfgs) \<longrightarrow>
         ev_Type event = ''DELETED''
         \<and> (\<exists>c. ev_Object event = ClusterObject c \<and> mkc_Name c = k))
   \<and> (\<forall>k. k \<in> dom cfgs \<and> k \<notin> dom (watchLoop ns events cfgs) \<longrightarrow>
         (\<exists>(w', event') \<in> set events. ev_Type event' = ''DELETED''
            \<and> (\<exists>c. ev_Object event' = ClusterObject c \<and> mkc_Name c = k)))
   \<and> (\<forall>k. k \<in> dom cfgs \<and> k \<notin> dom (watchMultiKueueClusters w ns (Inr events) cfgs) \<longrightarrow>
         (\<exists>(w', event') \<in> set events. ev_Type event' = ''DELETED''
            \<and> (\<exists>c. ev_Object event' = ClusterObject c \<and> mkc_Name c = k)))
   \<and> (\<forall>k. snd (LoadConfigs w ns cfgs) k = cfgs k
         \<or> (\<exists>clusters. w_listMultiKueueClusters w = Inr clusters
              \<and> (\<exists>c \<in> set clusters. \<exists>config. mkc_Name c = k
                    \<and> loadCluster w ns c = Inr config
                    \<and> snd (LoadConfigs w ns cfgs) k = Some config)))
   \<and> (\<forall>k \<in> dom cfgs. k \<in> dom (snd (LoadConfigs w ns cfgs)))
   \<and> (\<forall>t. handleWatchEvent (w\<lparr>w_now := t\<rparr>) ns event cfgs = handleWatchEvent w ns event cfgs)"
proof -
  have del: "handleWatchEvent w ns \<lparr>ev_Type = ''DELETED'', ev_Object = ClusterObject cluster\<rparr>
      cfgs = cfgs(mkc_Name cluster := None)"
    by (simp add: handleWatchEvent_def)
  have step: "ev_Type event = ''DELETED''
         \<and> (\<exists>c. ev_Object event = ClusterObject c \<and> mkc_Name c = k)"
    if "k \<in> dom cfgs \<and> k \<notin> dom (handleWatchEvent w ns event cfgs)" for k
    using that handleWatchEvent_keeps by blast
  have run: "\<exists>(w', event') \<in> set events. ev_Type event' = ''DELETED''
            \<and> (\<exists>c. ev_Object event' = ClusterObject c \<and> mkc_Name c = k)"
    if "k \<in> dom cfgs \<and> k \<notin> dom (watchLoop ns events cfgs)" for k
    using that watchLoop_keeps by blast
  have keep: "\<forall>k \<in> dom cfgs. k \<in> dom (snd (LoadConfigs w ns cfgs))"
    using loadLoop_keeps [of _ cfgs w ns]
    by (auto simp: LoadConfigs_def split: sum.splits)
  have whole: "\<exists>(w', event') \<in> set events. ev_Type event' = ''DELETED''
            \<and> (\<exists>c. ev_Object event' = ClusterObject c \<and> mkc_Name c = k)"
    if "k \<in> dom cfgs \<and> k \<notin> dom (watchMultiKueueClusters w ns (Inr events) cfgs)" for k
  proof -
    from that keep have "k \<in> dom (snd (LoadConfigs w ns cfgs))" by blast
    moreover from that
    have "k \<notin> dom (watchLoop ns events (snd (LoadConfigs w ns cfgs)))"
      by (simp add: watchMultiKueueClusters_def Let_def)
    ultimately show ?thesis by (rule watchLoop_keeps)
  qed
  have load: "snd (LoadConfigs w ns cfgs) k = cfgs k
         \<or> (\<exists>clusters. w_listMultiKueueClusters w = Inr clusters
              \<and> (\<exists>c \<in> set clusters. \<exists>config. mkc_Name c = k
                    \<and> loadCluster w ns c = Inr config
                    \<and> snd (LoadConfigs w ns cfgs) k = Some config))" for k
  proof (cases "w_listMultiKueueClusters w")
    case (Inl e)
    then show ?thesis by (simp add: LoadConfigs_def)
  next
    case (Inr clusters)
    then show ?thesis
      using loadLoop_changes [of w ns clusters cfgs k] by (simp add: LoadConfigs_def)
  qed
  have clock: "handleWatchEvent (w\<lparr>w_now := t\<rparr>) ns event cfgs = handleWatchEvent w ns event cfgs"
    for t
    by (simp add: handleWatchEvent_def LoadConfigs_def loadLoop_clock split: sum.splits)
  show ?thesis
    using del step run whole load keep clock by blast
qed

theorem cache_entries_removed_only_by_deletion_witness:
  "handleWatchEvent example_world ''kueue-system''
      \<lparr>ev_Type = ''DELETED'', ev_Object = ClusterObject mkc_c9\<rparr> cache_c1_c9
     = [''c1'' \<mapsto> c1_config]
   \<and> ''c9'' \<in> dom cache_c1_c9
   \<and> ''c9'' \<notin> dom (watchLoop ''kueue-system'' example_events cache_c1_c9)
   \<and> (\<exists>(w', event') \<in> set example_events. ev_Type event' = ''DELETED''
         \<and> (\<exists>c. ev_Object event' = ClusterObject c \<and> mkc_Name c = ''c9''))
   \<and> ''c9'' \<in> dom (snd (LoadConfigs example_world ''kueue-system'' cache_c1_c9))"
proof -
  note t = cache_entries_removed_only_by_deletion [of example_world "''kueue-system''" mkc_c9
      cache_c1_c9 "\<lparr>ev_Type = ''MODIFIED'', ev_Object = ClusterObject mkc_c1\<rparr>" example_events]
  have present: "''c9'' \<in> dom cache_c1_c9"
    by (simp add: cache_c1_c9_def)
  have l: "loadCluster example_world ''kueue-system'' mkc_c2 =
        Inl ''MultiKueueCluster c2 has unsupported location type: ConfigMap''"
      "loadCluster example_world ''kueue-system'' mkc_c1 = Inr c1_config"
      "loadCluster example_world ''kueue-system'' mkc_c3 =
        Inl ''Secret broken does not contain kubeconfig data''"
    by (simp_all add: loadCluster_def mkc_c1_def mkc_c2_def mkc_c3_def example_world_def
        example_secrets_def example_parse_def)
  have gone: "''c9'' \<notin> dom (watchLoop ''kueue-system'' example_events cache_c1_c9)"
    by (simp add: example_events_def handleWatchEvent_def LoadConfigs_def l mkc_c9_def
        cache_c1_c9_def example_world_def [THEN arg_cong, of w_listMultiKueueClusters])
  have deleted: "handleWatchEvent example_world ''kueue-system''
      \<lparr>ev_Type = ''DELETED'', ev_Object = ClusterObject mkc_c9\<rparr> cache_c1_c9
     = [''c1'' \<mapsto> c1_config]"
    using t by (auto simp: cache_c1_c9_def mkc_c9_def)
  have ex: "\<exists>(w', event') \<in> set example_events. ev_Type event' = ''DELETED''
         \<and> (\<exists>c. ev_Object event' = ClusterObject c \<and> mkc_Name c = ''c9'')"
    using t present gone by blast
  have kept: "''c9'' \<in> dom (snd (LoadConfigs example_world ''kueue-system'' cache_c1_c9))"
    using t present by blast
  show ?thesis using deleted present gone ex kept by simp
qed

end
